theory Spec2Isabelle
  imports
    Main
    "HOL-Library.Char_ord"
    "HOL-Library.List_Lexorder"
    "HOL-Library.Product_Lexorder"
begin

section \<open>The audit logger of \<^verbatim>\<open>security/compliance/audit_logger.py\<close>\<close>

text \<open>
  A shallow embedding of the audit event model, the filter, the two storage backends and
  the logger. Library calls are modelled at the level the program uses them:
  \<^item> \<^verbatim>\<open>uuid.uuid4()\<close>, \<^verbatim>\<open>datetime.utcnow()\<close> and the order in which the interpreter
    iterates a set are read from an environment record;
  \<^item> \<^verbatim>\<open>json.dumps\<close> / \<^verbatim>\<open>json.loads\<close>, Fernet and SHA-256 are symbolic: a JSON text is
    represented by the document it encodes, a token by its plaintext, a digest by its
    preimage (a perfect codec, a perfect cipher, a collision-free hash);
  \<^item> exceptions are values of \<open>exn\<close>; all of them are subclasses of \<^verbatim>\<open>Exception\<close>
    (\<^verbatim>\<open>KeyboardInterrupt\<close> and \<^verbatim>\<open>SystemExit\<close> are outside the model).
\<close>

subsection \<open>Enumerations\<close>

datatype AuditLevel = DEBUG | INFO | WARNING | ERROR | CRITICAL | SECURITY | COMPLIANCE

datatype AuditCategory =
    AUTHENTICATION | AUTHORIZATION | DATA_ACCESS | DATA_MODIFICATION
  | SYSTEM_CONFIGURATION | USER_MANAGEMENT | SECURITY_EVENT | COMPLIANCE_EVENT
  | BUSINESS_PROCESS | NETWORK_ACTIVITY | FILE_SYSTEM | DATABASE | API_CALL
  | PERFORMANCE | ERROR_EVENT

datatype AuditAction =
    CREATE | READ | UPDATE | DELETE | LOGIN | LOGOUT | ACCESS_GRANTED | ACCESS_DENIED
  | PERMISSION_CHANGED | CONFIGURATION_CHANGED | PASSWORD_CHANGED | ACCOUNT_LOCKED
  | ACCOUNT_UNLOCKED | BACKUP_CREATED | BACKUP_RESTORED | SYSTEM_STARTUP
  | SYSTEM_SHUTDOWN | EXPORT | IMPORT | APPROVE | REJECT

datatype ComplianceFramework =
    SOX | GDPR | HIPAA | PCI_DSS | ISO27001 | SOC2 | FISMA | NIST | COBIT

datatype exn =
    ValueError | KeyError | TypeError | AttributeError | OSError
  | JSONDecodeError | InvalidToken
  | IntegrityError | OperationalError | ProgrammingError | OverflowError
  | QueueFull

text \<open>The \<^verbatim>\<open>.value\<close> of each member, and the members in definition order.\<close>

fun AuditLevel_value :: "AuditLevel \<Rightarrow> string" where
  "AuditLevel_value DEBUG = ''debug''"
| "AuditLevel_value INFO = ''info''"
| "AuditLevel_value WARNING = ''warning''"
| "AuditLevel_value ERROR = ''error''"
| "AuditLevel_value CRITICAL = ''critical''"
| "AuditLevel_value SECURITY = ''security''"
| "AuditLevel_value COMPLIANCE = ''compliance''"

definition AuditLevel_members :: "AuditLevel list" where
  "AuditLevel_members = [DEBUG, INFO, WARNING, ERROR, CRITICAL, SECURITY, COMPLIANCE]"

fun AuditCategory_value :: "AuditCategory \<Rightarrow> string" where
  "AuditCategory_value AUTHENTICATION = ''authentication''"
| "AuditCategory_value AUTHORIZATION = ''authorization''"
| "AuditCategory_value DATA_ACCESS = ''data_access''"
| "AuditCategory_value DATA_MODIFICATION = ''data_modification''"
| "AuditCategory_value SYSTEM_CONFIGURATION = ''system_configuration''"
| "AuditCategory_value USER_MANAGEMENT = ''user_management''"
| "AuditCategory_value SECURITY_EVENT = ''security_event''"
| "AuditCategory_value COMPLIANCE_EVENT = ''compliance_event''"
| "AuditCategory_value BUSINESS_PROCESS = ''business_process''"
| "AuditCategory_value NETWORK_ACTIVITY = ''network_activity''"
| "AuditCategory_value FILE_SYSTEM = ''file_system''"
| "AuditCategory_value DATABASE = ''database''"
| "AuditCategory_value API_CALL = ''api_call''"
| "AuditCategory_value PERFORMANCE = ''performance''"
| "AuditCategory_value ERROR_EVENT = ''error_event''"

definition AuditCategory_members :: "AuditCategory list" where
  "AuditCategory_members =
     [AUTHENTICATION, AUTHORIZATION, DATA_ACCESS, DATA_MODIFICATION, SYSTEM_CONFIGURATION,
      USER_MANAGEMENT, SECURITY_EVENT, COMPLIANCE_EVENT, BUSINESS_PROCESS, NETWORK_ACTIVITY,
      FILE_SYSTEM, DATABASE, API_CALL, PERFORMANCE, ERROR_EVENT]"

fun AuditAction_value :: "AuditAction \<Rightarrow> string" where
  "AuditAction_value CREATE = ''create''"
| "AuditAction_value READ = ''read''"
| "AuditAction_value UPDATE = ''update''"
| "AuditAction_value DELETE = ''delete''"
| "AuditAction_value LOGIN = ''login''"
| "AuditAction_value LOGOUT = ''logout''"
| "AuditAction_value ACCESS_GRANTED = ''access_granted''"
| "AuditAction_value ACCESS_DENIED = ''access_denied''"
| "AuditAction_value PERMISSION_CHANGED = ''permission_changed''"
| "AuditAction_value CONFIGURATION_CHANGED = ''configuration_changed''"
| "AuditAction_value PASSWORD_CHANGED = ''password_changed''"
| "AuditAction_value ACCOUNT_LOCKED = ''account_locked''"
| "AuditAction_value ACCOUNT_UNLOCKED = ''account_unlocked''"
| "AuditAction_value BACKUP_CREATED = ''backup_created''"
| "AuditAction_value BACKUP_RESTORED = ''backup_restored''"
| "AuditAction_value SYSTEM_STARTUP = ''system_startup''"
| "AuditAction_value SYSTEM_SHUTDOWN = ''system_shutdown''"
| "AuditAction_value EXPORT = ''export''"
| "AuditAction_value IMPORT = ''import''"
| "AuditAction_value APPROVE = ''approve''"
| "AuditAction_value REJECT = ''reject''"

definition AuditAction_members :: "AuditAction list" where
  "AuditAction_members =
     [CREATE, READ, UPDATE, DELETE, LOGIN, LOGOUT, ACCESS_GRANTED, ACCESS_DENIED,
      PERMISSION_CHANGED, CONFIGURATION_CHANGED, PASSWORD_CHANGED, ACCOUNT_LOCKED,
      ACCOUNT_UNLOCKED, BACKUP_CREATED, BACKUP_RESTORED, SYSTEM_STARTUP, SYSTEM_SHUTDOWN,
      EXPORT, IMPORT, APPROVE, REJECT]"

fun ComplianceFramework_value :: "ComplianceFramework \<Rightarrow> string" where
  "ComplianceFramework_value SOX = ''sox''"
| "ComplianceFramework_value GDPR = ''gdpr''"
| "ComplianceFramework_value HIPAA = ''hipaa''"
| "ComplianceFramework_value PCI_DSS = ''pci_dss''"
| "ComplianceFramework_value ISO27001 = ''iso27001''"
| "ComplianceFramework_value SOC2 = ''soc2''"
| "ComplianceFramework_value FISMA = ''fisma''"
| "ComplianceFramework_value NIST = ''nist''"
| "ComplianceFramework_value COBIT = ''cobit''"

definition ComplianceFramework_members :: "ComplianceFramework list" where
  "ComplianceFramework_members = [SOX, GDPR, HIPAA, PCI_DSS, ISO27001, SOC2, FISMA, NIST, COBIT]"

text \<open>
  \<^verbatim>\<open>AuditLevel(s)\<close> and its siblings: the member whose value is \<open>s\<close>, or
  \<^verbatim>\<open>ValueError\<close>.
\<close>

definition enum_of_value :: "('a \<Rightarrow> string) \<Rightarrow> 'a list \<Rightarrow> string \<Rightarrow> exn + 'a" where
  "enum_of_value val members s =
     (case find (\<lambda>m. val m = s) members of None \<Rightarrow> Inl ValueError | Some m \<Rightarrow> Inr m)"

definition AuditLevel_of :: "string \<Rightarrow> exn + AuditLevel" where
  "AuditLevel_of = enum_of_value AuditLevel_value AuditLevel_members"

definition AuditCategory_of :: "string \<Rightarrow> exn + AuditCategory" where
  "AuditCategory_of = enum_of_value AuditCategory_value AuditCategory_members"

definition AuditAction_of :: "string \<Rightarrow> exn + AuditAction" where
  "AuditAction_of = enum_of_value AuditAction_value AuditAction_members"

definition ComplianceFramework_of :: "string \<Rightarrow> exn + ComplianceFramework" where
  "ComplianceFramework_of = enum_of_value ComplianceFramework_value ComplianceFramework_members"

subsection \<open>Naive datetimes and their ISO-8601 text\<close>

text \<open>
  \<^verbatim>\<open>datetime.utcnow()\<close> yields a naive datetime; Python compares two of them as the tuples
  of their fields. \<^verbatim>\<open>isoformat()\<close> prints \<^verbatim>\<open>YYYY-MM-DDTHH:MM:SS\<close> and appends
  \<^verbatim>\<open>.ffffff\<close> when the microsecond is not zero.
\<close>

record datetime =
  year :: nat
  month :: nat
  day :: nat
  hour :: nat
  minute :: nat
  second :: nat
  microsecond :: nat

definition is_leap :: "nat \<Rightarrow> bool" where
  "is_leap y = (y mod 4 = 0 \<and> (y mod 400 = 0 \<or> y mod 100 \<noteq> 0))"

definition days_in_month :: "nat \<Rightarrow> nat \<Rightarrow> nat" where
  "days_in_month y m =
     (if m = 2 then (if is_leap y then 29 else 28)
      else if m = 4 \<or> m = 6 \<or> m = 9 \<or> m = 11 then 30 else 31)"

definition valid_datetime :: "datetime \<Rightarrow> bool" where
  "valid_datetime d =
     (1 \<le> year d \<and> year d \<le> 9999 \<and> 1 \<le> month d \<and> month d \<le> 12 \<and>
      1 \<le> day d \<and> day d \<le> days_in_month (year d) (month d) \<and>
      hour d < 24 \<and> minute d < 60 \<and> second d < 60 \<and> microsecond d < 1000000)"

definition dt_tuple :: "datetime \<Rightarrow> nat \<times> nat \<times> nat \<times> nat \<times> nat \<times> nat \<times> nat" where
  "dt_tuple d = (year d, month d, day d, hour d, minute d, second d, microsecond d)"

definition dt_less :: "datetime \<Rightarrow> datetime \<Rightarrow> bool" where
  "dt_less a b = (dt_tuple a < dt_tuple b)"

definition dt_le :: "datetime \<Rightarrow> datetime \<Rightarrow> bool" where
  "dt_le a b = (dt_tuple a \<le> dt_tuple b)"

definition digit_char :: "nat \<Rightarrow> char" where
  "digit_char n = char_of (48 + n)"

fun zpad :: "nat \<Rightarrow> nat \<Rightarrow> string" where
  "zpad 0 n = []"
| "zpad (Suc k) n = zpad k (n div 10) @ [digit_char (n mod 10)]"

definition isoformat :: "datetime \<Rightarrow> string" where
  "isoformat d =
     zpad 4 (year d) @ ''-'' @ zpad 2 (month d) @ ''-'' @ zpad 2 (day d) @ ''T'' @
     zpad 2 (hour d) @ '':'' @ zpad 2 (minute d) @ '':'' @ zpad 2 (second d) @
     (if microsecond d = 0 then [] else ''.'' @ zpad 6 (microsecond d))"

definition digit_val :: "char \<Rightarrow> nat option" where
  "digit_val c =
     (if CHR ''0'' \<le> c \<and> c \<le> CHR ''9'' then Some (of_char c - 48) else None)"

fun parse_digits :: "nat \<Rightarrow> string \<Rightarrow> nat option" where
  "parse_digits acc [] = Some acc"
| "parse_digits acc (c # cs) =
     (case digit_val c of None \<Rightarrow> None | Some v \<Rightarrow> parse_digits (10 * acc + v) cs)"

text \<open>
  \<^verbatim>\<open>datetime.fromisoformat\<close>, on the two spellings \<^verbatim>\<open>isoformat()\<close> produces for a naive
  datetime; any other text is a \<^verbatim>\<open>ValueError\<close>.
\<close>

definition fromisoformat :: "string \<Rightarrow> exn + datetime" where
  "fromisoformat s =
     (if \<not> (length s = 19 \<or> (length s = 26 \<and> s ! 19 = CHR ''.'')) then Inl ValueError
      else if \<not> (s ! 4 = CHR ''-'' \<and> s ! 7 = CHR ''-'' \<and> s ! 13 = CHR '':'' \<and> s ! 16 = CHR '':'')
      then Inl ValueError
      else
        (case (parse_digits 0 (take 4 s), parse_digits 0 (take 2 (drop 5 s)),
               parse_digits 0 (take 2 (drop 8 s)), parse_digits 0 (take 2 (drop 11 s)),
               parse_digits 0 (take 2 (drop 14 s)), parse_digits 0 (take 2 (drop 17 s)),
               parse_digits 0 (drop 20 s)) of
           (Some y, Some mo, Some d, Some h, Some mi, Some sec, Some us) \<Rightarrow>
             (let dt = \<lparr>year = y, month = mo, day = d, hour = h, minute = mi,
                        second = sec, microsecond = us\<rparr>
              in if valid_datetime dt then Inr dt else Inl ValueError)
         | _ \<Rightarrow> Inl ValueError))"

text \<open>\<^verbatim>\<open>strftime("%Y%m%d_%H%M%S")\<close>, used for log file names.\<close>

definition strftime_file :: "datetime \<Rightarrow> string" where
  "strftime_file d =
     zpad 4 (year d) @ zpad 2 (month d) @ zpad 2 (day d) @ ''_'' @
     zpad 2 (hour d) @ zpad 2 (minute d) @ zpad 2 (second d)"

subsection \<open>Strings\<close>

text \<open>\<^verbatim>\<open>str.lower()\<close> on ASCII letters, and the substring test \<^verbatim>\<open>sub in s\<close>.\<close>

definition lower_char :: "char \<Rightarrow> char" where
  "lower_char c =
     (if CHR ''A'' \<le> c \<and> c \<le> CHR ''Z'' then char_of (of_char c + (32::nat)) else c)"

definition str_lower :: "string \<Rightarrow> string" where
  "str_lower s = map lower_char s"

fun str_contains :: "string \<Rightarrow> string \<Rightarrow> bool" where
  "str_contains sub [] = (sub = [])"
| "str_contains sub (c # cs) = (take (length sub) (c # cs) = sub \<or> str_contains sub cs)"

subsection \<open>JSON documents, texts and digests\<close>

datatype jv =
    JNull | JBool bool | JInt int | JStr string
  | JList "jv list" | JDict "(string \<times> jv) list"

text \<open>
  A text is raw characters, the JSON text of a document (\<^verbatim>\<open>json.dumps\<close>), or the Fernet
  token of a text under the backend's key. A dictionary keeps its insertion order, as
  Python's does, and \<^verbatim>\<open>json.dumps\<close> writes the keys in that order.
\<close>

datatype pytext = Raw string | Json jv | Fernet pytext

datatype digest = SHA256 pytext

definition json_loads :: "pytext \<Rightarrow> exn + jv" where
  "json_loads t = (case t of Json d \<Rightarrow> Inr d | _ \<Rightarrow> Inl JSONDecodeError)"

definition decrypt :: "pytext \<Rightarrow> exn + pytext" where
  "decrypt t = (case t of Fernet p \<Rightarrow> Inr p | _ \<Rightarrow> Inl InvalidToken)"

subsection \<open>Python sets and the order of their iteration\<close>

text \<open>
  \<^verbatim>\<open>compliance_frameworks\<close> is a Python set. The model keeps a set as the list of its
  elements in the order they were inserted, each element once; \<^verbatim>\<open>add\<close> and \<^verbatim>\<open>update\<close>
  leave an element that is present where it is. Two such sets are equal in Python when
  they have the same elements.

  The order in which CPython iterates a set is not the order of insertion: it is the
  order of the slots of the hash table, which depends on the hashes of the elements (for
  an enum member the hash of its name, which changes with the hash seed of the
  interpreter) and, when two elements collide, on which was inserted first. It is
  therefore a parameter: a \<open>hash_order\<close> maps the insertion sequence of a set to the
  sequence in which the interpreter iterates that set, and every function that iterates
  a set takes one. All that Python promises of it is that the iteration yields each
  element once (\<open>iterates_each_once\<close>).
\<close>

definition set_add :: "'a \<Rightarrow> 'a list \<Rightarrow> 'a list" where
  "set_add x s = (if x \<in> set s then s else s @ [x])"

definition set_update :: "'a list \<Rightarrow> 'a list \<Rightarrow> 'a list" where
  "set_update xs s = foldl (\<lambda>acc x. set_add x acc) s xs"

type_synonym 'a hash_order = "'a list \<Rightarrow> 'a list"

definition set_iter :: "'a hash_order \<Rightarrow> 'a list \<Rightarrow> 'a list" where
  "set_iter h s = h s"

definition iterates_each_once :: "'a hash_order \<Rightarrow> 'a list \<Rightarrow> bool" where
  "iterates_each_once h s = (distinct (set_iter h s) \<and> set (set_iter h s) = set s)"

subsection \<open>AuditEvent\<close>

record AuditEvent =
  event_id :: string
  timestamp :: datetime
  level :: AuditLevel
  category :: AuditCategory
  action :: AuditAction
  actor :: string
  target :: string
  result :: string
  message :: string
  details :: "(string \<times> jv) list"
  source_ip :: "string option"
  user_agent :: "string option"
  session_id :: "string option"
  correlation_id :: "string option"
  compliance_frameworks :: "ComplianceFramework list"
  risk_score :: int
  sensitive_data :: bool

definition assign_compliance_frameworks :: "AuditEvent \<Rightarrow> AuditEvent" where
  "assign_compliance_frameworks self =
     (let s1 = (if category self \<in> set [DATA_ACCESS, DATA_MODIFICATION]
                then self\<lparr>compliance_frameworks := set_add GDPR (compliance_frameworks self)\<rparr>
                else self);
          s2 = (if str_contains ''financial'' (str_lower (target s1))
                   \<or> category s1 = SYSTEM_CONFIGURATION
                then s1\<lparr>compliance_frameworks := set_add SOX (compliance_frameworks s1)\<rparr>
                else s1);
          s3 = (if category s2 = SECURITY_EVENT
                then s2\<lparr>compliance_frameworks :=
                          set_update [ISO27001, SOC2, NIST] (compliance_frameworks s2)\<rparr>
                else s2);
          s4 = (if category s3 = AUTHENTICATION
                then s3\<lparr>compliance_frameworks :=
                          set_update [SOC2, ISO27001, PCI_DSS] (compliance_frameworks s3)\<rparr>
                else s3)
      in s4)"

text \<open>
  \<^verbatim>\<open>__post_init__\<close>; \<open>fresh\<close> is the value \<^verbatim>\<open>uuid.uuid4()\<close> would return. The dataclass
  constructor \<^verbatim>\<open>AuditEvent(...)\<close> is \<open>post_init\<close> applied to the record of its arguments.
\<close>

definition post_init :: "string \<Rightarrow> AuditEvent \<Rightarrow> AuditEvent" where
  "post_init fresh self =
     assign_compliance_frameworks
       (if event_id self = [] then self\<lparr>event_id := fresh\<rparr> else self)"

definition opt_str :: "string option \<Rightarrow> jv" where
  "opt_str v = (case v of None \<Rightarrow> JNull | Some s \<Rightarrow> JStr s)"

definition to_dict :: "ComplianceFramework hash_order \<Rightarrow> AuditEvent \<Rightarrow> (string \<times> jv) list" where
  "to_dict h self =
     [(''event_id'', JStr (event_id self)),
      (''timestamp'', JStr (isoformat (timestamp self))),
      (''level'', JStr (AuditLevel_value (level self))),
      (''category'', JStr (AuditCategory_value (category self))),
      (''action'', JStr (AuditAction_value (action self))),
      (''actor'', JStr (actor self)),
      (''target'', JStr (target self)),
      (''result'', JStr (result self)),
      (''message'', JStr (message self)),
      (''details'', JDict (details self)),
      (''source_ip'', opt_str (source_ip self)),
      (''user_agent'', opt_str (user_agent self)),
      (''session_id'', opt_str (session_id self)),
      (''correlation_id'', opt_str (correlation_id self)),
      (''compliance_frameworks'',
         JList (map (\<lambda>f. JStr (ComplianceFramework_value f))
                  (set_iter h (compliance_frameworks self)))),
      (''risk_score'', JInt (risk_score self)),
      (''sensitive_data'', JBool (sensitive_data self))]"

definition to_json :: "ComplianceFramework hash_order \<Rightarrow> AuditEvent \<Rightarrow> pytext" where
  "to_json h self = Json (JDict (to_dict h self))"

definition calculate_checksum :: "ComplianceFramework hash_order \<Rightarrow> AuditEvent \<Rightarrow> digest" where
  "calculate_checksum h self = SHA256 (to_json h self)"

subsection \<open>AuditFilter\<close>

text \<open>
  The filter's sets are only tested for emptiness and membership, so they are HOL sets;
  \<open>None\<close> is Python's \<^verbatim>\<open>None\<close>.
\<close>

record AuditFilter =
  min_level :: "AuditLevel option"
  categories :: "AuditCategory set option"
  actors :: "string set option"
  exclude_actors :: "string set"
  filter_frameworks :: "ComplianceFramework set option"
  time_range :: "(datetime \<times> datetime) option"

text \<open>
  \<^verbatim>\<open>AuditFilter.__init__\<close>: an argument that is not supplied is \<open>None\<close> here and takes
  the default of the signature; a supplied one carries the value passed (which may be
  Python's \<^verbatim>\<open>None\<close>).
\<close>

definition AuditFilter_init ::
  "AuditLevel option option \<Rightarrow> AuditCategory set option \<Rightarrow> string set option \<Rightarrow>
   string set option \<Rightarrow> ComplianceFramework set option \<Rightarrow> (datetime \<times> datetime) option \<Rightarrow>
   AuditFilter" where
  "AuditFilter_init min_level_arg categories_arg actors_arg exclude_actors_arg
       frameworks_arg time_range_arg =
     \<lparr>min_level = (case min_level_arg of None \<Rightarrow> Some INFO | Some v \<Rightarrow> v),
      categories = categories_arg,
      actors = actors_arg,
      exclude_actors = (case exclude_actors_arg of None \<Rightarrow> {} | Some s \<Rightarrow> s),
      filter_frameworks = frameworks_arg,
      time_range = time_range_arg\<rparr>"

fun level_priority :: "AuditLevel \<Rightarrow> nat" where
  "level_priority DEBUG = 0"
| "level_priority INFO = 1"
| "level_priority WARNING = 2"
| "level_priority ERROR = 3"
| "level_priority CRITICAL = 4"
| "level_priority SECURITY = 5"
| "level_priority COMPLIANCE = 5"

text \<open>\<^verbatim>\<open>level_priority.get(x, 0)\<close>, for an \<open>x\<close> that may be \<^verbatim>\<open>None\<close>.\<close>

definition level_priority_get :: "AuditLevel option \<Rightarrow> nat" where
  "level_priority_get x = (case x of None \<Rightarrow> 0 | Some l \<Rightarrow> level_priority l)"

definition should_log :: "AuditFilter \<Rightarrow> AuditEvent \<Rightarrow> bool" where
  "should_log self event =
     (if level_priority_get (Some (level event)) < level_priority_get (min_level self)
      then False
      else if (case categories self of None \<Rightarrow> False
               | Some cs \<Rightarrow> cs \<noteq> {} \<and> category event \<notin> cs)
      then False
      else if (case actors self of None \<Rightarrow> False
               | Some as \<Rightarrow> as \<noteq> {} \<and> actor event \<notin> as)
      then False
      else if actor event \<in> exclude_actors self
      then False
      else if (case filter_frameworks self of None \<Rightarrow> False
               | Some fs \<Rightarrow> fs \<noteq> {} \<and> set (compliance_frameworks event) \<inter> fs = {})
      then False
      else if (case time_range self of None \<Rightarrow> False
               | Some (start_time, end_time) \<Rightarrow>
                   \<not> (dt_le start_time (timestamp event) \<and> dt_le (timestamp event) end_time))
      then False
      else True)"

subsection \<open>Environment, exceptions and generic helpers\<close>

text \<open>
  What one call reads from outside the program: the value of \<^verbatim>\<open>str(uuid.uuid4())\<close> in
  \<^verbatim>\<open>log_event\<close>, the value \<^verbatim>\<open>uuid.uuid4()\<close> would give \<^verbatim>\<open>__post_init__\<close>, the clock
  (\<^verbatim>\<open>datetime.utcnow()\<close>), the modification time the file system stamps on a file written
  now (as \<^verbatim>\<open>datetime.fromtimestamp\<close> reads it back), the number of bytes the entry
  written takes on disk, and the order in which the interpreter iterates a set of
  frameworks.
\<close>

record env =
  env_uuid :: string
  env_uuid_post :: string
  env_utcnow :: datetime
  env_mtime :: datetime
  env_nbytes :: nat
  env_hash_order :: "ComplianceFramework hash_order"

definition exn_bind :: "exn + 'a \<Rightarrow> ('a \<Rightarrow> exn + 'b) \<Rightarrow> exn + 'b" where
  "exn_bind r f = (case r of Inl e \<Rightarrow> Inl e | Inr v \<Rightarrow> f v)"

fun exn_map :: "('a \<Rightarrow> exn + 'b) \<Rightarrow> 'a list \<Rightarrow> exn + 'b list" where
  "exn_map f [] = Inr []"
| "exn_map f (x # xs) =
     exn_bind (f x) (\<lambda>y. exn_bind (exn_map f xs) (\<lambda>ys. Inr (y # ys)))"

text \<open>
  \<^verbatim>\<open>sorted(..., reverse=True)\<close> and \<^verbatim>\<open>ORDER BY ... DESC\<close>: a stable sort into descending
  key order (elements with equal keys keep their order).
\<close>

fun insort_desc :: "('a \<Rightarrow> 'k::linorder) \<Rightarrow> 'a \<Rightarrow> 'a list \<Rightarrow> 'a list" where
  "insort_desc k x [] = [x]"
| "insort_desc k x (y # ys) = (if k y \<le> k x then x # y # ys else y # insort_desc k x ys)"

definition sort_desc :: "('a \<Rightarrow> 'k::linorder) \<Rightarrow> 'a list \<Rightarrow> 'a list" where
  "sort_desc k xs = foldr (insort_desc k) xs []"

definition accepts :: "AuditFilter option \<Rightarrow> AuditEvent \<Rightarrow> bool" where
  "accepts flt event = (case flt of None \<Rightarrow> True | Some f \<Rightarrow> should_log f event)"

subsection \<open>Rebuilding an event from a stored dictionary\<close>

text \<open>
  \<^verbatim>\<open>data[k]\<close> raises \<^verbatim>\<open>KeyError\<close> on a missing key. The dataclass constructor raises
  \<^verbatim>\<open>TypeError\<close> on an unknown keyword and on a missing required field. Python would build
  an object from a value of the wrong JSON type; the record is typed, so such a
  dictionary is a \<^verbatim>\<open>TypeError\<close> here.
\<close>

definition get_item :: "(string \<times> jv) list \<Rightarrow> string \<Rightarrow> exn + jv" where
  "get_item d k = (case map_of d k of None \<Rightarrow> Inl KeyError | Some v \<Rightarrow> Inr v)"

definition enum_of_jv :: "(string \<Rightarrow> exn + 'a) \<Rightarrow> jv \<Rightarrow> exn + 'a" where
  "enum_of_jv of_value v = (case v of JStr s \<Rightarrow> of_value s | _ \<Rightarrow> Inl ValueError)"

definition datetime_of_jv :: "jv \<Rightarrow> exn + datetime" where
  "datetime_of_jv v = (case v of JStr s \<Rightarrow> fromisoformat s | _ \<Rightarrow> Inl TypeError)"

definition iter_jv :: "jv \<Rightarrow> exn + jv list" where
  "iter_jv v =
     (case v of
        JList xs \<Rightarrow> Inr xs
      | JStr s \<Rightarrow> Inr (map (\<lambda>c. JStr [c]) s)
      | JDict kvs \<Rightarrow> Inr (map (\<lambda>kv. JStr (fst kv)) kvs)
      | _ \<Rightarrow> Inl TypeError)"

text \<open>
  \<^verbatim>\<open>{ComplianceFramework(f) for f in ...}\<close>: the set comprehension inserts the members in
  the order of the array it reads, a member that occurs twice once.
\<close>

definition frameworks_of_jv :: "jv \<Rightarrow> exn + ComplianceFramework list" where
  "frameworks_of_jv v =
     exn_bind (iter_jv v) (\<lambda>xs.
     exn_bind (exn_map (enum_of_jv ComplianceFramework_of) xs) (\<lambda>fs.
     Inr (set_update fs [])))"

definition str_field :: "(string \<times> jv) list \<Rightarrow> string \<Rightarrow> exn + string" where
  "str_field d k = (case map_of d k of Some (JStr s) \<Rightarrow> Inr s | _ \<Rightarrow> Inl TypeError)"

definition opt_str_field :: "(string \<times> jv) list \<Rightarrow> string \<Rightarrow> exn + string option" where
  "opt_str_field d k =
     (case map_of d k of
        None \<Rightarrow> Inr None | Some JNull \<Rightarrow> Inr None | Some (JStr s) \<Rightarrow> Inr (Some s)
      | _ \<Rightarrow> Inl TypeError)"

definition details_field :: "(string \<times> jv) list \<Rightarrow> exn + (string \<times> jv) list" where
  "details_field d =
     (case map_of d ''details'' of
        None \<Rightarrow> Inr [] | Some (JDict kvs) \<Rightarrow> Inr kvs | _ \<Rightarrow> Inl TypeError)"

definition int_field :: "(string \<times> jv) list \<Rightarrow> string \<Rightarrow> exn + int" where
  "int_field d k =
     (case map_of d k of None \<Rightarrow> Inr 0 | Some (JInt i) \<Rightarrow> Inr i | _ \<Rightarrow> Inl TypeError)"

definition bool_field :: "(string \<times> jv) list \<Rightarrow> string \<Rightarrow> exn + bool" where
  "bool_field d k =
     (case map_of d k of None \<Rightarrow> Inr False | Some (JBool b) \<Rightarrow> Inr b | _ \<Rightarrow> Inl TypeError)"

definition AuditEvent_fields :: "string list" where
  "AuditEvent_fields =
     [''event_id'', ''timestamp'', ''level'', ''category'', ''action'', ''actor'', ''target'',
      ''result'', ''message'', ''details'', ''source_ip'', ''user_agent'', ''session_id'',
      ''correlation_id'', ''compliance_frameworks'', ''risk_score'', ''sensitive_data'']"

text \<open>
  \<^verbatim>\<open>FileAuditStorage._dict_to_event\<close>. The four conversions and the framework set come
  first, in the source's order; the constructor call \<^verbatim>\<open>AuditEvent(**data)\<close> follows.
\<close>

definition dict_to_event :: "string \<Rightarrow> jv \<Rightarrow> exn + AuditEvent" where
  "dict_to_event fresh data =
     (case data of
        JDict d \<Rightarrow>
          exn_bind (exn_bind (get_item d ''level'') (enum_of_jv AuditLevel_of)) (\<lambda>lv.
          exn_bind (exn_bind (get_item d ''category'') (enum_of_jv AuditCategory_of)) (\<lambda>cat.
          exn_bind (exn_bind (get_item d ''action'') (enum_of_jv AuditAction_of)) (\<lambda>act.
          exn_bind (exn_bind (get_item d ''timestamp'') datetime_of_jv) (\<lambda>ts.
          exn_bind (frameworks_of_jv
                      (case map_of d ''compliance_frameworks'' of None \<Rightarrow> JList [] | Some v \<Rightarrow> v))
            (\<lambda>fws.
          if \<not> list_all (\<lambda>kv. fst kv \<in> set AuditEvent_fields) d then Inl TypeError
          else
          exn_bind (str_field d ''event_id'') (\<lambda>eid.
          exn_bind (str_field d ''actor'') (\<lambda>ac.
          exn_bind (str_field d ''target'') (\<lambda>tg.
          exn_bind (str_field d ''result'') (\<lambda>res.
          exn_bind (str_field d ''message'') (\<lambda>msg.
          exn_bind (details_field d) (\<lambda>det.
          exn_bind (opt_str_field d ''source_ip'') (\<lambda>ip.
          exn_bind (opt_str_field d ''user_agent'') (\<lambda>ua.
          exn_bind (opt_str_field d ''session_id'') (\<lambda>sid.
          exn_bind (opt_str_field d ''correlation_id'') (\<lambda>cid.
          exn_bind (int_field d ''risk_score'') (\<lambda>risk.
          exn_bind (bool_field d ''sensitive_data'') (\<lambda>sens.
          Inr (post_init fresh
                 \<lparr>event_id = eid, timestamp = ts, level = lv, category = cat, action = act,
                  actor = ac, target = tg, result = res, message = msg, details = det,
                  source_ip = ip, user_agent = ua, session_id = sid, correlation_id = cid,
                  compliance_frameworks = fws, risk_score = risk,
                  sensitive_data = sens\<rparr>))))))))))))))))))
      | _ \<Rightarrow> Inl TypeError)"

subsection \<open>FileAuditStorage\<close>

text \<open>
  The log directory is the list of its \<^verbatim>\<open>audit_*.log*\<close> files in the order \<^verbatim>\<open>glob\<close> lists
  them. A file has a name, a modification time, a size in bytes and its lines (for a
  \<^verbatim>\<open>.gz\<close> file, the lines \<^verbatim>\<open>gzip.open\<close> yields); \<open>f_readable\<close> is false for a file that
  cannot be opened. \<open>disk_writable\<close> is false when opening the current file for append
  fails.
\<close>

record log_file =
  f_name :: string
  f_mtime :: datetime
  f_size :: nat
  f_lines :: "pytext list"
  f_readable :: bool

record FileAuditStorage =
  log_directory :: "log_file list"
  current_file :: string
  max_file_size :: nat
  max_files :: nat
  compress_old_files :: bool
  encrypt_files :: bool
  disk_writable :: bool

definition initialize_current_file :: "env \<Rightarrow> FileAuditStorage \<Rightarrow> FileAuditStorage" where
  "initialize_current_file e self =
     self\<lparr>current_file := ''audit_'' @ strftime_file (env_utcnow e) @ ''.log''\<rparr>"

definition compress_file :: "env \<Rightarrow> FileAuditStorage \<Rightarrow> string \<Rightarrow> exn + FileAuditStorage" where
  "compress_file e self file_path =
     (case find (\<lambda>f. f_name f = file_path) (log_directory self) of
        None \<Rightarrow> Inl OSError
      | Some f \<Rightarrow>
          if \<not> f_readable f then Inl OSError
          else Inr (self\<lparr>log_directory :=
                 filter (\<lambda>g. f_name g \<noteq> file_path \<and> f_name g \<noteq> file_path @ ''.gz'')
                   (log_directory self)
                 @ [f\<lparr>f_name := file_path @ ''.gz'', f_mtime := env_mtime e\<rparr>]\<rparr>))"

definition cleanup_old_files :: "FileAuditStorage \<Rightarrow> FileAuditStorage" where
  "cleanup_old_files self =
     (let log_files = sort_desc (\<lambda>f. dt_tuple (f_mtime f)) (log_directory self);
          old = map f_name (drop (max_files self) log_files)
      in self\<lparr>log_directory := filter (\<lambda>f. f_name f \<notin> set old) (log_directory self)\<rparr>)"

definition rotate_file_if_needed :: "env \<Rightarrow> FileAuditStorage \<Rightarrow> exn + FileAuditStorage" where
  "rotate_file_if_needed e self =
     (case find (\<lambda>f. f_name f = current_file self) (log_directory self) of
        None \<Rightarrow> Inr self
      | Some f \<Rightarrow>
          if max_file_size self \<le> f_size f
          then exn_bind
                 (if compress_old_files self then compress_file e self (current_file self)
                  else Inr self)
                 (\<lambda>s1. Inr (cleanup_old_files (initialize_current_file e s1)))
          else Inr self)"

definition append_line :: "env \<Rightarrow> FileAuditStorage \<Rightarrow> pytext \<Rightarrow> FileAuditStorage" where
  "append_line e self log_entry =
     (if \<exists>f \<in> set (log_directory self). f_name f = current_file self
      then self\<lparr>log_directory :=
             map (\<lambda>f. if f_name f = current_file self
                       then f\<lparr>f_lines := f_lines f @ [log_entry], f_mtime := env_mtime e,
                              f_size := f_size f + env_nbytes e\<rparr>
                       else f)
               (log_directory self)\<rparr>
      else self\<lparr>log_directory := log_directory self @
             [\<lparr>f_name = current_file self, f_mtime = env_mtime e, f_size = env_nbytes e,
               f_lines = [log_entry], f_readable = True\<rparr>]\<rparr>)"

text \<open>
  The body of the \<^verbatim>\<open>try\<close> in \<^verbatim>\<open>FileAuditStorage.store_event\<close>: the exception raised, if
  any, and the storage as the body left it.
\<close>

definition File_store_event_body ::
  "env \<Rightarrow> FileAuditStorage \<Rightarrow> AuditEvent \<Rightarrow> exn option \<times> FileAuditStorage" where
  "File_store_event_body e self event =
     (case rotate_file_if_needed e self of
        Inl x \<Rightarrow> (Some x, self)
      | Inr s1 \<Rightarrow>
          (let log_entry = (if encrypt_files s1 then Fernet (to_json (env_hash_order e) event)
                            else to_json (env_hash_order e) event)
           in if disk_writable s1 then (None, append_line e s1 log_entry)
              else (Some OSError, s1)))"

text \<open>
  \<^verbatim>\<open>store_event\<close>: the outcome (\<open>Inl\<close> would be an exception leaving the call), the
  storage afterwards, and the messages passed to \<^verbatim>\<open>logging.error\<close>.
\<close>

definition File_store_event ::
  "env \<Rightarrow> FileAuditStorage \<Rightarrow> AuditEvent \<Rightarrow> (exn + bool) \<times> FileAuditStorage \<times> string list" where
  "File_store_event e self event =
     (case File_store_event_body e self event of
        (None, s') \<Rightarrow> (Inr True, s', [])
      | (Some x, s') \<Rightarrow> (Inr False, s', [''Failed to store audit event'']))"

definition parse_line :: "string \<Rightarrow> FileAuditStorage \<Rightarrow> pytext \<Rightarrow> exn + AuditEvent" where
  "parse_line fresh self line =
     exn_bind (if encrypt_files self then decrypt line else Inr line) (\<lambda>l.
     exn_bind (json_loads l) (\<lambda>event_data.
     dict_to_event fresh event_data))"

fun read_lines ::
  "string \<Rightarrow> FileAuditStorage \<Rightarrow> AuditFilter option \<Rightarrow> int \<Rightarrow> AuditEvent list \<Rightarrow> pytext list
   \<Rightarrow> AuditEvent list" where
  "read_lines fresh self flt limit events [] = events"
| "read_lines fresh self flt limit events (line # rest) =
     (if limit \<le> int (length events) then events
      else (case parse_line fresh self line of
              Inl x \<Rightarrow> read_lines fresh self flt limit events rest
            | Inr event \<Rightarrow>
                if accepts flt event
                then read_lines fresh self flt limit (events @ [event]) rest
                else read_lines fresh self flt limit events rest))"

fun read_files ::
  "string \<Rightarrow> FileAuditStorage \<Rightarrow> AuditFilter option \<Rightarrow> int \<Rightarrow> AuditEvent list \<Rightarrow> log_file list
   \<Rightarrow> AuditEvent list" where
  "read_files fresh self flt limit events [] = events"
| "read_files fresh self flt limit events (log_file # rest) =
     (if limit \<le> int (length events) then events
      else if \<not> f_readable log_file then read_files fresh self flt limit events rest
      else read_files fresh self flt limit
             (read_lines fresh self flt limit events (f_lines log_file)) rest)"

definition File_retrieve_events ::
  "string \<Rightarrow> FileAuditStorage \<Rightarrow> AuditFilter option \<Rightarrow> int \<Rightarrow> AuditEvent list" where
  "File_retrieve_events fresh self flt limit =
     read_files fresh self flt limit []
       (sort_desc (\<lambda>f. dt_tuple (f_mtime f)) (log_directory self))"

fun count_lines ::
  "string \<Rightarrow> FileAuditStorage \<Rightarrow> AuditFilter option \<Rightarrow> nat \<Rightarrow> pytext list \<Rightarrow> nat" where
  "count_lines fresh self flt count [] = count"
| "count_lines fresh self flt count (line # rest) =
     (case parse_line fresh self line of
        Inl x \<Rightarrow> count_lines fresh self flt count rest
      | Inr event \<Rightarrow>
          if accepts flt event then count_lines fresh self flt (count + 1) rest
          else count_lines fresh self flt count rest)"

fun count_files ::
  "string \<Rightarrow> FileAuditStorage \<Rightarrow> AuditFilter option \<Rightarrow> nat \<Rightarrow> log_file list \<Rightarrow> nat" where
  "count_files fresh self flt count [] = count"
| "count_files fresh self flt count (log_file # rest) =
     (if \<not> f_readable log_file then count_files fresh self flt count rest
      else count_files fresh self flt (count_lines fresh self flt count (f_lines log_file)) rest)"

definition File_get_event_count ::
  "string \<Rightarrow> FileAuditStorage \<Rightarrow> AuditFilter option \<Rightarrow> nat" where
  "File_get_event_count fresh self flt = count_files fresh self flt 0 (log_directory self)"

text \<open>
  \<^verbatim>\<open>FileAuditStorage.cleanup_old_events\<close>: the loop over the files, returning the count
  and the files left.
\<close>

fun cleanup_loop :: "datetime \<Rightarrow> nat \<Rightarrow> log_file list \<Rightarrow> nat \<times> log_file list" where
  "cleanup_loop older_than cleaned_count [] = (cleaned_count, [])"
| "cleanup_loop older_than cleaned_count (log_file # rest) =
     (if dt_less (f_mtime log_file) older_than
      then cleanup_loop older_than (cleaned_count + 1) rest
      else (case cleanup_loop older_than cleaned_count rest of
              (n, kept) \<Rightarrow> (n, log_file # kept)))"

definition File_cleanup_old_events ::
  "FileAuditStorage \<Rightarrow> datetime \<Rightarrow> nat \<times> FileAuditStorage" where
  "File_cleanup_old_events self older_than =
     (case cleanup_loop older_than 0 (log_directory self) of
        (n, kept) \<Rightarrow> (n, self\<lparr>log_directory := kept\<rparr>))"

subsection \<open>DatabaseAuditStorage\<close>

text \<open>
  The table \<^verbatim>\<open>audit_events\<close> is the list of its rows in insertion order; TEXT columns
  that hold JSON hold a \<open>pytext\<close>, a NULL is \<open>None\<close>, and the BOOLEAN column holds the
  integer SQLite stores. \<open>db_available\<close> is false when \<^verbatim>\<open>sqlite3.connect\<close> or the statement
  fails (a locked or unreachable database). SQLite compares TEXT byte by byte, which is
  the lexicographic order on strings.
\<close>

record db_row =
  r_event_id :: string
  r_timestamp :: string
  r_level :: string
  r_category :: string
  r_action :: string
  r_actor :: string
  r_target :: string
  r_result :: string
  r_message :: string
  r_details :: "pytext option"
  r_source_ip :: "string option"
  r_user_agent :: "string option"
  r_session_id :: "string option"
  r_correlation_id :: "string option"
  r_compliance_frameworks :: "pytext option"
  r_risk_score :: int
  r_sensitive_data :: int
  r_checksum :: "digest option"

record DatabaseAuditStorage =
  audit_events :: "db_row list"
  db_available :: bool

definition row_of_event :: "ComplianceFramework hash_order \<Rightarrow> AuditEvent \<Rightarrow> db_row" where
  "row_of_event h event =
     \<lparr>r_event_id = event_id event,
      r_timestamp = isoformat (timestamp event),
      r_level = AuditLevel_value (level event),
      r_category = AuditCategory_value (category event),
      r_action = AuditAction_value (action event),
      r_actor = actor event,
      r_target = target event,
      r_result = result event,
      r_message = message event,
      r_details = Some (Json (JDict (details event))),
      r_source_ip = source_ip event,
      r_user_agent = user_agent event,
      r_session_id = session_id event,
      r_correlation_id = correlation_id event,
      r_compliance_frameworks =
        Some (Json (JList (map (\<lambda>f. JStr (ComplianceFramework_value f))
                             (set_iter h (compliance_frameworks event))))),
      r_risk_score = risk_score event,
      r_sensitive_data = (if sensitive_data event then 1 else 0),
      r_checksum = Some (calculate_checksum h event)\<rparr>"

text \<open>
  The integers \<^verbatim>\<open>sqlite3\<close> binds to a parameter are the signed 64-bit ones; binding any
  other Python \<^verbatim>\<open>int\<close> raises \<^verbatim>\<open>OverflowError\<close>.
\<close>

definition sqlite_integer :: "int \<Rightarrow> bool" where
  "sqlite_integer i = (- 9223372036854775808 \<le> i \<and> i \<le> 9223372036854775807)"

text \<open>
  The body of the \<^verbatim>\<open>try\<close> in \<^verbatim>\<open>DatabaseAuditStorage.store_event\<close>: the connection is
  opened, the checksum and the framework array are computed, the parameters are bound
  (\<^verbatim>\<open>risk_score\<close> is the one column that receives a Python \<^verbatim>\<open>int\<close>) and the INSERT runs;
  it violates the primary key when a row with the event's id exists.
\<close>

definition Db_store_event_body ::
  "env \<Rightarrow> DatabaseAuditStorage \<Rightarrow> AuditEvent \<Rightarrow> exn + DatabaseAuditStorage" where
  "Db_store_event_body e self event =
     (if \<not> db_available self then Inl OperationalError
      else if \<not> sqlite_integer (risk_score event) then Inl OverflowError
      else if event_id event \<in> set (map r_event_id (audit_events self)) then Inl IntegrityError
      else Inr (self\<lparr>audit_events :=
                  audit_events self @ [row_of_event (env_hash_order e) event]\<rparr>))"

definition Db_store_event ::
  "env \<Rightarrow> DatabaseAuditStorage \<Rightarrow> AuditEvent
   \<Rightarrow> (exn + bool) \<times> DatabaseAuditStorage \<times> string list" where
  "Db_store_event e self event =
     (case Db_store_event_body e self event of
        Inr s' \<Rightarrow> (Inr True, s', [])
      | Inl x \<Rightarrow> (Inr False, self, [''Failed to store audit event'']))"

text \<open>
  \<^verbatim>\<open>_row_to_event\<close>. \<^verbatim>\<open>json.loads(None)\<close> is a \<^verbatim>\<open>TypeError\<close>; the integer of the BOOLEAN
  column becomes the truth value Python's comparison gives it.
\<close>

definition row_to_event :: "string \<Rightarrow> db_row \<Rightarrow> exn + AuditEvent" where
  "row_to_event fresh row_data =
     exn_bind (AuditLevel_of (r_level row_data)) (\<lambda>lv.
     exn_bind (AuditCategory_of (r_category row_data)) (\<lambda>cat.
     exn_bind (AuditAction_of (r_action row_data)) (\<lambda>act.
     exn_bind (fromisoformat (r_timestamp row_data)) (\<lambda>ts.
     exn_bind (json_loads (case r_details row_data of
                             None \<Rightarrow> Json (JDict [])
                           | Some t \<Rightarrow> if t = Raw [] then Json (JDict []) else t)) (\<lambda>det.
     exn_bind (case r_compliance_frameworks row_data of
                 None \<Rightarrow> Inl TypeError | Some t \<Rightarrow> json_loads t) (\<lambda>compliance_frameworks_data.
     exn_bind (frameworks_of_jv compliance_frameworks_data) (\<lambda>fws.
     (case det of
        JDict kvs \<Rightarrow>
          Inr (post_init fresh
                 \<lparr>event_id = r_event_id row_data, timestamp = ts, level = lv, category = cat,
                  action = act, actor = r_actor row_data, target = r_target row_data,
                  result = r_result row_data, message = r_message row_data, details = kvs,
                  source_ip = r_source_ip row_data, user_agent = r_user_agent row_data,
                  session_id = r_session_id row_data,
                  correlation_id = r_correlation_id row_data,
                  compliance_frameworks = fws, risk_score = r_risk_score row_data,
                  sensitive_data = (r_sensitive_data row_data \<noteq> 0)\<rparr>)
      | _ \<Rightarrow> Inl TypeError))))))))"

definition level_hierarchy :: "AuditLevel \<Rightarrow> string list" where
  "level_hierarchy m =
     (case m of
        DEBUG \<Rightarrow> [''COMPLIANCE'', ''SECURITY'', ''CRITICAL'', ''ERROR'', ''WARNING'', ''INFO'',
                  ''DEBUG'']
      | INFO \<Rightarrow> [''COMPLIANCE'', ''SECURITY'', ''CRITICAL'', ''ERROR'', ''WARNING'', ''INFO'']
      | WARNING \<Rightarrow> [''COMPLIANCE'', ''SECURITY'', ''CRITICAL'', ''ERROR'', ''WARNING'']
      | ERROR \<Rightarrow> [''COMPLIANCE'', ''SECURITY'', ''CRITICAL'', ''ERROR'']
      | CRITICAL \<Rightarrow> [''COMPLIANCE'', ''SECURITY'', ''CRITICAL'']
      | SECURITY \<Rightarrow> [''COMPLIANCE'', ''SECURITY'']
      | COMPLIANCE \<Rightarrow> [''COMPLIANCE''])"

text \<open>
  The WHERE clause \<^verbatim>\<open>retrieve_events\<close> builds, as one condition per criterion it
  translates: the number of \<^verbatim>\<open>?\<close> placeholders, the parameters bound to them, and the
  test on a row.
\<close>

record sql_condition =
  placeholders :: nat
  params :: "string list"
  holds :: "db_row \<Rightarrow> bool"

definition level_condition :: "AuditLevel \<Rightarrow> sql_condition" where
  "level_condition m =
     (let allowed_levels = level_hierarchy m
      in \<lparr>placeholders = 5, params = take 5 allowed_levels,
          holds = (\<lambda>r. r_level r \<in> set (take 5 allowed_levels))\<rparr>)"

definition categories_condition :: "AuditCategory set \<Rightarrow> sql_condition" where
  "categories_condition cs =
     (let vals = map AuditCategory_value (filter (\<lambda>c. c \<in> cs) AuditCategory_members)
      in \<lparr>placeholders = length vals, params = vals,
          holds = (\<lambda>r. r_category r \<in> set vals)\<rparr>)"

definition actors_condition :: "string set \<Rightarrow> sql_condition" where
  "actors_condition as =
     (let vals = sorted_list_of_set as
      in \<lparr>placeholders = length vals, params = vals, holds = (\<lambda>r. r_actor r \<in> as)\<rparr>)"

definition time_range_condition :: "datetime \<times> datetime \<Rightarrow> sql_condition" where
  "time_range_condition tr =
     (case tr of (start_time, end_time) \<Rightarrow>
        \<lparr>placeholders = 2, params = [isoformat start_time, isoformat end_time],
         holds = (\<lambda>r. isoformat start_time \<le> r_timestamp r
                       \<and> r_timestamp r \<le> isoformat end_time)\<rparr>)"

definition retrieve_conditions :: "AuditFilter option \<Rightarrow> sql_condition list" where
  "retrieve_conditions flt =
     (case flt of
        None \<Rightarrow> []
      | Some f \<Rightarrow>
          (case min_level f of None \<Rightarrow> [] | Some m \<Rightarrow> [level_condition m])
          @ (case categories f of None \<Rightarrow> []
             | Some cs \<Rightarrow> if cs = {} then [] else [categories_condition cs])
          @ (case actors f of None \<Rightarrow> []
             | Some as \<Rightarrow> if as = {} then [] else [actors_condition as])
          @ (case time_range f of None \<Rightarrow> [] | Some tr \<Rightarrow> [time_range_condition tr]))"

definition count_conditions :: "AuditFilter option \<Rightarrow> sql_condition list" where
  "count_conditions flt =
     (case flt of
        None \<Rightarrow> []
      | Some f \<Rightarrow>
          (case categories f of None \<Rightarrow> []
           | Some cs \<Rightarrow> if cs = {} then [] else [categories_condition cs])
          @ (case actors f of None \<Rightarrow> []
             | Some as \<Rightarrow> if as = {} then [] else [actors_condition as]))"

text \<open>
  \<^verbatim>\<open>conn.execute(query, params)\<close> for a SELECT over the table: sqlite3 raises
  \<^verbatim>\<open>ProgrammingError\<close> when the number of parameters supplied differs from the number of
  placeholders; otherwise the rows satisfying every condition are selected.
\<close>

definition execute_select ::
  "DatabaseAuditStorage \<Rightarrow> sql_condition list \<Rightarrow> exn + db_row list" where
  "execute_select self conds =
     (if \<not> db_available self then Inl OperationalError
      else if list_ex (\<lambda>c. placeholders c \<noteq> length (params c)) conds then Inl ProgrammingError
      else Inr (filter (\<lambda>r. list_all (\<lambda>c. holds c r) conds) (audit_events self)))"

text \<open>\<^verbatim>\<open>LIMIT ?\<close>: a negative limit is no limit in SQLite.\<close>

definition sql_limit :: "int \<Rightarrow> 'a list \<Rightarrow> 'a list" where
  "sql_limit limit rows = (if limit < 0 then rows else take (nat limit) rows)"

definition Db_retrieve_events_body ::
  "string \<Rightarrow> DatabaseAuditStorage \<Rightarrow> AuditFilter option \<Rightarrow> int \<Rightarrow> exn + AuditEvent list" where
  "Db_retrieve_events_body fresh self flt limit =
     exn_bind (execute_select self (retrieve_conditions flt)) (\<lambda>matching.
     exn_map (row_to_event fresh) (sql_limit limit (sort_desc r_timestamp matching)))"

definition Db_retrieve_events ::
  "string \<Rightarrow> DatabaseAuditStorage \<Rightarrow> AuditFilter option \<Rightarrow> int \<Rightarrow> AuditEvent list" where
  "Db_retrieve_events fresh self flt limit =
     (case Db_retrieve_events_body fresh self flt limit of Inr events \<Rightarrow> events | Inl x \<Rightarrow> [])"

definition Db_get_event_count :: "DatabaseAuditStorage \<Rightarrow> AuditFilter option \<Rightarrow> nat" where
  "Db_get_event_count self flt =
     (case execute_select self (count_conditions flt) of
        Inr matching \<Rightarrow> length matching | Inl x \<Rightarrow> 0)"

text \<open>
  \<^verbatim>\<open>DELETE FROM audit_events WHERE timestamp < ?\<close> with the ISO text of \<open>older_than\<close>;
  \<^verbatim>\<open>cursor.rowcount\<close> is the number of rows deleted. On an exception the method returns 0.
\<close>

definition Db_cleanup_old_events ::
  "DatabaseAuditStorage \<Rightarrow> datetime \<Rightarrow> nat \<times> DatabaseAuditStorage" where
  "Db_cleanup_old_events self older_than =
     (if \<not> db_available self then (0, self)
      else (length (filter (\<lambda>r. r_timestamp r < isoformat older_than) (audit_events self)),
            self\<lparr>audit_events :=
                   filter (\<lambda>r. \<not> r_timestamp r < isoformat older_than) (audit_events self)\<rparr>))"

subsection \<open>The storage interface\<close>

datatype AuditStorage = FileStorage FileAuditStorage | DbStorage DatabaseAuditStorage

definition store_event ::
  "env \<Rightarrow> AuditStorage \<Rightarrow> AuditEvent \<Rightarrow> (exn + bool) \<times> AuditStorage \<times> string list" where
  "store_event e st event =
     (case st of
        FileStorage fs \<Rightarrow>
          (case File_store_event e fs event of (r, fs', logged) \<Rightarrow> (r, FileStorage fs', logged))
      | DbStorage db \<Rightarrow>
          (case Db_store_event e db event of (r, db', logged) \<Rightarrow> (r, DbStorage db', logged)))"

definition retrieve_events ::
  "string \<Rightarrow> AuditStorage \<Rightarrow> AuditFilter option \<Rightarrow> int \<Rightarrow> AuditEvent list" where
  "retrieve_events fresh st flt limit =
     (case st of
        FileStorage fs \<Rightarrow> File_retrieve_events fresh fs flt limit
      | DbStorage db \<Rightarrow> Db_retrieve_events fresh db flt limit)"

definition get_event_count :: "string \<Rightarrow> AuditStorage \<Rightarrow> AuditFilter option \<Rightarrow> nat" where
  "get_event_count fresh st flt =
     (case st of
        FileStorage fs \<Rightarrow> File_get_event_count fresh fs flt
      | DbStorage db \<Rightarrow> Db_get_event_count db flt)"

definition cleanup_old_events :: "AuditStorage \<Rightarrow> datetime \<Rightarrow> nat \<times> AuditStorage" where
  "cleanup_old_events st older_than =
     (case st of
        FileStorage fs \<Rightarrow>
          (case File_cleanup_old_events fs older_than of (n, fs') \<Rightarrow> (n, FileStorage fs'))
      | DbStorage db \<Rightarrow>
          (case Db_cleanup_old_events db older_than of (n, db') \<Rightarrow> (n, DbStorage db')))"

subsection \<open>AuditLogger\<close>

text \<open>
  A handler is a callable that returns (\<open>None\<close>) or raises (\<open>Some\<close> exception); it only
  observes the event. \<open>handler_calls\<close> records every invocation: the position of the
  handler in \<open>event_handlers\<close> and the event passed. \<open>event_queue\<close> is the content of the
  bounded queue when the call runs, \<open>queue_maxsize\<close> its \<^verbatim>\<open>maxsize\<close> (unbounded when not
  positive), \<open>error_log\<close> the messages passed to \<^verbatim>\<open>logging.error\<close>.
\<close>

record AuditLogger =
  storage :: AuditStorage
  filters :: "AuditFilter list"
  async_logging :: bool
  event_queue :: "AuditEvent list"
  queue_maxsize :: int
  event_handlers :: "(AuditEvent \<Rightarrow> exn option) list"
  handler_calls :: "(nat \<times> AuditEvent) list"
  error_log :: "string list"

text \<open>The optional keyword arguments of \<^verbatim>\<open>log_event\<close>; \<open>None\<close> is an argument not passed.\<close>

record kwargs =
  kw_details :: "(string \<times> jv) list option"
  kw_source_ip :: "string option"
  kw_user_agent :: "string option"
  kw_session_id :: "string option"
  kw_correlation_id :: "string option"
  kw_compliance_frameworks :: "ComplianceFramework list option"
  kw_risk_score :: "int option"
  kw_sensitive_data :: "bool option"

definition no_kwargs :: kwargs where
  "no_kwargs =
     \<lparr>kw_details = None, kw_source_ip = None, kw_user_agent = None, kw_session_id = None,
      kw_correlation_id = None, kw_compliance_frameworks = None, kw_risk_score = None,
      kw_sensitive_data = None\<rparr>"

text \<open>The event \<^verbatim>\<open>log_event\<close> constructs.\<close>

definition new_event ::
  "env \<Rightarrow> AuditLevel \<Rightarrow> AuditCategory \<Rightarrow> AuditAction \<Rightarrow> string \<Rightarrow> string \<Rightarrow> string \<Rightarrow> string
   \<Rightarrow> kwargs \<Rightarrow> AuditEvent" where
  "new_event e lv cat act ac tg res msg kw =
     post_init (env_uuid_post e)
       \<lparr>event_id = env_uuid e, timestamp = env_utcnow e, level = lv, category = cat,
        action = act, actor = ac, target = tg, result = res, message = msg,
        details = (case kw_details kw of None \<Rightarrow> [] | Some d \<Rightarrow> d),
        source_ip = kw_source_ip kw, user_agent = kw_user_agent kw,
        session_id = kw_session_id kw, correlation_id = kw_correlation_id kw,
        compliance_frameworks = (case kw_compliance_frameworks kw of None \<Rightarrow> [] | Some s \<Rightarrow> s),
        risk_score = (case kw_risk_score kw of None \<Rightarrow> 0 | Some r \<Rightarrow> r),
        sensitive_data = (case kw_sensitive_data kw of None \<Rightarrow> False | Some b \<Rightarrow> b)\<rparr>"

fun call_handlers ::
  "AuditEvent \<Rightarrow> nat \<Rightarrow> (AuditEvent \<Rightarrow> exn option) list \<Rightarrow> AuditLogger \<Rightarrow> AuditLogger" where
  "call_handlers event i [] self = self"
| "call_handlers event i (handler # rest) self =
     call_handlers event (Suc i) rest
       (self\<lparr>handler_calls := handler_calls self @ [(i, event)],
             error_log := (case handler event of
                             None \<Rightarrow> error_log self
                           | Some x \<Rightarrow> error_log self @ [''Event handler failed''])\<rparr>)"

definition queue_full :: "AuditLogger \<Rightarrow> bool" where
  "queue_full self = (0 < queue_maxsize self \<and> queue_maxsize self \<le> int (length (event_queue self)))"

text \<open>
  \<^verbatim>\<open>log_event\<close>, after the event is constructed: the filters, the handlers, then the
  queue or the storage. The outcome is the value returned, or the exception that leaves
  the call.
\<close>

definition dispatch_event ::
  "env \<Rightarrow> AuditLogger \<Rightarrow> AuditEvent \<Rightarrow> (exn + string) \<times> AuditLogger" where
  "dispatch_event e self event =
     (if list_ex (\<lambda>f. \<not> should_log f event) (filters self) then (Inr (event_id event), self)
      else
        (let s1 = call_handlers event 0 (event_handlers self) self
         in if async_logging s1
            then (if queue_full s1
                  then (Inr (event_id event),
                        s1\<lparr>error_log := error_log s1 @ [''Audit event queue is full, dropping event'']\<rparr>)
                  else (Inr (event_id event), s1\<lparr>event_queue := event_queue s1 @ [event]\<rparr>))
            else (case store_event e (storage s1) event of
                    (r, st', logged) \<Rightarrow>
                      (case r of
                         Inl x \<Rightarrow> (Inl x, s1\<lparr>storage := st', error_log := error_log s1 @ logged\<rparr>)
                       | Inr b \<Rightarrow> (Inr (event_id event),
                                   s1\<lparr>storage := st', error_log := error_log s1 @ logged\<rparr>)))))"

definition log_event ::
  "env \<Rightarrow> AuditLogger \<Rightarrow> AuditLevel \<Rightarrow> AuditCategory \<Rightarrow> AuditAction \<Rightarrow> string \<Rightarrow> string
   \<Rightarrow> string \<Rightarrow> string \<Rightarrow> kwargs \<Rightarrow> (exn + string) \<times> AuditLogger" where
  "log_event e self lv cat act ac tg res msg kw =
     dispatch_event e self (new_event e lv cat act ac tg res msg kw)"

definition log_authentication ::
  "env \<Rightarrow> AuditLogger \<Rightarrow> string \<Rightarrow> string \<Rightarrow> kwargs \<Rightarrow> (exn + string) \<times> AuditLogger" where
  "log_authentication e self ac res kw =
     log_event e self SECURITY AUTHENTICATION
       (if res = ''success'' then LOGIN else ACCESS_DENIED)
       ac ''authentication_system'' res (''Authentication '' @ res @ '' for '' @ ac) kw"

text \<open>The failed-login list of the security analysis in \<^verbatim>\<open>generate_audit_report\<close>.\<close>

definition failed_logins :: "AuditEvent list \<Rightarrow> AuditEvent list" where
  "failed_logins events =
     filter (\<lambda>e. action e = ACCESS_DENIED \<and> category e = AUTHENTICATION) events"

subsection \<open>Auxiliary definitions\<close>

text \<open>
  The messages \<open>call_handlers\<close> passes to \<^verbatim>\<open>logging.error\<close>: one for each handler that
  raises on the event.
\<close>

definition handler_failures :: "AuditEvent \<Rightarrow> (AuditEvent \<Rightarrow> exn option) list \<Rightarrow> string list" where
  "handler_failures event handlers =
     map (\<lambda>handler. ''Event handler failed'') (filter (\<lambda>handler. handler event \<noteq> None) handlers)"

text \<open>
  The frameworks \<open>assign_compliance_frameworks\<close> leaves on an event, as a function of the
  category, the target and the frameworks present before.
\<close>

definition derive_frameworks ::
  "AuditCategory \<Rightarrow> string \<Rightarrow> ComplianceFramework list \<Rightarrow> ComplianceFramework list" where
  "derive_frameworks c t fs =
     set_update (if c = AUTHENTICATION then [SOC2, ISO27001, PCI_DSS] else [])
       (set_update (if c = SECURITY_EVENT then [ISO27001, SOC2, NIST] else [])
         (set_update (if str_contains ''financial'' (str_lower t) \<or> c = SYSTEM_CONFIGURATION
                      then [SOX] else [])
           (set_update (if c = DATA_ACCESS \<or> c = DATA_MODIFICATION then [GDPR] else []) fs)))"


text \<open>
  What holds of every event a constructor call has produced, as long as it is given a
  valid timestamp: the id is not empty, the framework set has no duplicate, and the
  derivation has already been applied.
\<close>

definition well_formed_event :: "AuditEvent \<Rightarrow> bool" where
  "well_formed_event e =
     (event_id e \<noteq> [] \<and> valid_datetime (timestamp e) \<and> distinct (compliance_frameworks e)
      \<and> derive_frameworks (category e) (target e) (compliance_frameworks e)
          = compliance_frameworks e)"

subsection \<open>Equality of events\<close>

text \<open>
  Python's \<^verbatim>\<open>==\<close> on two events compares field by field: two dictionaries are equal
  when they hold the same items whatever the insertion order, two sets when they hold
  the same elements. (\<open>dict_eq\<close> compares the values of the items structurally, which
  is sufficient for Python's equality.)
\<close>

definition dict_eq :: "(string \<times> jv) list \<Rightarrow> (string \<times> jv) list \<Rightarrow> bool" where
  "dict_eq xs ys = (distinct (map fst xs) \<and> distinct (map fst ys) \<and> set xs = set ys)"

definition py_eq :: "AuditEvent \<Rightarrow> AuditEvent \<Rightarrow> bool" where
  "py_eq a b =
     (event_id a = event_id b \<and> timestamp a = timestamp b \<and> level a = level b
      \<and> category a = category b \<and> action a = action b \<and> actor a = actor b
      \<and> target a = target b \<and> result a = result b \<and> message a = message b
      \<and> dict_eq (details a) (details b) \<and> source_ip a = source_ip b
      \<and> user_agent a = user_agent b \<and> session_id a = session_id b
      \<and> correlation_id a = correlation_id b
      \<and> set (compliance_frameworks a) = set (compliance_frameworks b)
      \<and> risk_score a = risk_score b \<and> sensitive_data a = sensitive_data b)"

subsection \<open>Concrete inputs\<close>

definition example_time :: datetime where
  "example_time = \<lparr>year = 2024, month = 1, day = 2, hour = 3, minute = 4, second = 5,
                    microsecond = 0\<rparr>"

definition example_event :: AuditEvent where
  "example_event =
     \<lparr>event_id = ''e1'', timestamp = example_time, level = DEBUG, category = PERFORMANCE,
      action = READ, actor = ''alice'', target = ''reports'', result = ''success'',
      message = ''read'', details = [], source_ip = None, user_agent = None,
      session_id = None, correlation_id = None, compliance_frameworks = [],
      risk_score = 0, sensitive_data = False\<rparr>"

text \<open>
  A hash layout: the orders in which CPython 3.11 iterates, when its hash seed is 46
  (\<^verbatim>\<open>PYTHONHASHSEED=46\<close>), the set that received \<^verbatim>\<open>SOC2\<close>, \<^verbatim>\<open>ISO27001\<close>, \<^verbatim>\<open>PCI_DSS\<close> in
  this order and the set that received \<^verbatim>\<open>PCI_DSS\<close>, \<^verbatim>\<open>ISO27001\<close>, \<^verbatim>\<open>SOC2\<close> in this
  order (under that seed \<^verbatim>\<open>ISO27001\<close> and \<^verbatim>\<open>PCI_DSS\<close> hash to the same slot of the
  table, so the one inserted second is moved to another slot). A set of at most one
  element has one order only; no other set is iterated with this layout below.
\<close>

definition example_hash_order :: "ComplianceFramework hash_order" where
  "example_hash_order s =
     (if s = [SOC2, ISO27001, PCI_DSS] then [PCI_DSS, ISO27001, SOC2]
      else if s = [PCI_DSS, ISO27001, SOC2] then [ISO27001, PCI_DSS, SOC2]
      else s)"

definition example_env :: env where
  "example_env =
     \<lparr>env_uuid = ''uuid-1'', env_uuid_post = ''uuid-2'', env_utcnow = example_time,
      env_mtime = example_time, env_nbytes = 100, env_hash_order = example_hash_order\<rparr>"

definition empty_db :: DatabaseAuditStorage where
  "empty_db = \<lparr>audit_events = [], db_available = True\<rparr>"

definition sync_logger :: AuditLogger where
  "sync_logger =
     \<lparr>storage = DbStorage empty_db,
      filters = [AuditFilter_init None None None None None None],
      async_logging = False, event_queue = [], queue_maxsize = 10000,
      event_handlers = [\<lambda>event. None], handler_calls = [], error_log = []\<rparr>"

definition full_logger :: AuditLogger where
  "full_logger =
     \<lparr>storage = DbStorage empty_db, filters = [], async_logging = True,
      event_queue = [example_event], queue_maxsize = 1,
      event_handlers = [], handler_calls = [], error_log = []\<rparr>"


definition details_ab :: "(string \<times> jv) list" where
  "details_ab = [(''a'', JInt 1), (''b'', JInt 2)]"

definition details_ba :: "(string \<times> jv) list" where
  "details_ba = [(''b'', JInt 2), (''a'', JInt 1)]"

definition login_event :: AuditEvent where
  "login_event = post_init ''uuid-2'' (example_event\<lparr>category := AUTHENTICATION\<rparr>)"

text \<open>
  The event rebuilt from the serialised \<open>login_event\<close>: its framework set received the
  elements in the order of the array written under \<open>example_hash_order\<close>.
\<close>

definition login_event_rebuilt :: AuditEvent where
  "login_event_rebuilt = login_event\<lparr>compliance_frameworks := [PCI_DSS, ISO27001, SOC2]\<rparr>"

definition old_time :: datetime where
  "old_time = \<lparr>year = 2020, month = 5, day = 17, hour = 8, minute = 30, second = 0,
                microsecond = 250000\<rparr>"

definition cutoff_time :: datetime where
  "cutoff_time = \<lparr>year = 2021, month = 1, day = 1, hour = 0, minute = 0, second = 0,
                   microsecond = 0\<rparr>"

definition old_event :: AuditEvent where
  "old_event = example_event\<lparr>event_id := ''e0'', timestamp := old_time\<rparr>"

definition empty_file_storage :: FileAuditStorage where
  "empty_file_storage =
     \<lparr>log_directory = [], current_file = ''audit_20240102_030405.log'',
      max_file_size = 104857600, max_files = 10, compress_old_files = True,
      encrypt_files = False, disk_writable = True\<rparr>"

definition stale_file_storage :: FileAuditStorage where
  "stale_file_storage =
     empty_file_storage\<lparr>log_directory :=
       [\<lparr>f_name = ''audit_20240102_030405.log'', f_mtime = example_time, f_size = 100,
         f_lines = [to_json example_hash_order old_event], f_readable = True\<rparr>]\<rparr>"

definition later_time :: datetime where
  "later_time = \<lparr>year = 2024, month = 1, day = 2, hour = 3, minute = 4, second = 6,
                  microsecond = 0\<rparr>"

definition later_env :: env where
  "later_env =
     \<lparr>env_uuid = ''uuid-3'', env_uuid_post = ''uuid-4'', env_utcnow = later_time,
      env_mtime = later_time, env_nbytes = 100, env_hash_order = example_hash_order\<rparr>"

definition file_logger :: AuditLogger where
  "file_logger =
     \<lparr>storage = FileStorage empty_file_storage, filters = [], async_logging = False,
      event_queue = [], queue_maxsize = 10000, event_handlers = [], handler_calls = [],
      error_log = []\<rparr>"

definition first_event :: AuditEvent where
  "first_event = new_event example_env INFO DATA_ACCESS READ ''alice'' ''reports'' ''success''
                   ''first'' no_kwargs"

definition second_event :: AuditEvent where
  "second_event = new_event later_env INFO DATA_ACCESS READ ''alice'' ''reports'' ''success''
                    ''second'' no_kwargs"

definition after_two_calls :: AuditLogger where
  "after_two_calls =
     snd (log_event later_env
            (snd (log_event example_env file_logger INFO DATA_ACCESS READ ''alice'' ''reports''
                    ''success'' ''first'' no_kwargs))
            INFO DATA_ACCESS READ ''alice'' ''reports'' ''success'' ''second'' no_kwargs)"

definition info_event :: AuditEvent where
  "info_event = example_event\<lparr>level := INFO\<rparr>"

definition one_row_db :: DatabaseAuditStorage where
  "one_row_db =
     \<lparr>audit_events = [row_of_event example_hash_order info_event], db_available = True\<rparr>"

definition default_filter :: AuditFilter where
  "default_filter = AuditFilter_init None None None None None None"

definition past_range_filter :: AuditFilter where
  "past_range_filter =
     AuditFilter_init (Some None) None None None None (Some (old_time, cutoff_time))"

section \<open>Properties\<close>

subsection \<open>ISO-8601 text: order and round trip\<close>

lemma divmod_less: "((n::nat) < m) = (n div 10 < m div 10 \<or> (n div 10 = m div 10 \<and> n mod 10 < m mod 10))"
proof -
  have "n = 10 * (n div 10) + n mod 10" "m = 10 * (m div 10) + m mod 10" by simp_all
  moreover have "n mod 10 < 10" "m mod 10 < 10" by simp_all
  ultimately show ?thesis by linarith
qed

lemma divmod_eq: "((n::nat) = m) = (n div 10 = m div 10 \<and> n mod 10 = m mod 10)"
  by (metis div_mult_mod_eq)

lemma append_less_same_length:
  "length xs = length ys \<Longrightarrow> (xs @ u < ys @ v) = (xs < ys \<or> (xs = ys \<and> u < v))"
proof (induction xs ys rule: list_induct2)
  case Nil then show ?case by simp
next
  case (Cons x xs y ys)
  then show ?case by (simp only: append_Cons Cons_less_Cons list.inject) blast
qed

lemma length_zpad [simp]: "length (zpad k n) = k"
  by (induction k arbitrary: n) simp_all

lemma of_char_digit_char: "a < 10 \<Longrightarrow> of_char (digit_char a) = 48 + a"
  by (simp add: digit_char_def take_bit_nat_eq_self)

lemma digit_char_less: "a < 10 \<Longrightarrow> b < 10 \<Longrightarrow> (digit_char a < digit_char b) = (a < b)"
  by (simp add: less_char_def of_char_digit_char)

lemma digit_char_eq: "a < 10 \<Longrightarrow> b < 10 \<Longrightarrow> (digit_char a = digit_char b) = (a = b)"
  by (metis of_char_digit_char add_left_cancel)

lemma digit_val_digit_char: "a < 10 \<Longrightarrow> digit_val (digit_char a) = Some a"
  by (simp add: digit_val_def less_eq_char_def of_char_digit_char)

lemma div10_bound: "(n::nat) < 10 ^ Suc k \<Longrightarrow> n div 10 < 10 ^ k"
  by (simp add: less_mult_imp_div_less mult.commute)

lemma zpad_eq: "n < 10 ^ k \<Longrightarrow> m < 10 ^ k \<Longrightarrow> (zpad k n = zpad k m) = (n = m)"
proof (induction k arbitrary: n m)
  case 0 then show ?case by simp
next
  case (Suc k)
  have a: "n div 10 < 10 ^ k" "m div 10 < 10 ^ k" using Suc.prems by (simp_all only: div10_bound)
  have "(zpad (Suc k) n = zpad (Suc k) m)
      = (zpad k (n div 10) = zpad k (m div 10) \<and> digit_char (n mod 10) = digit_char (m mod 10))"
    by simp
  also have "\<dots> = (n div 10 = m div 10 \<and> n mod 10 = m mod 10)"
    by (simp only: Suc.IH[OF a] digit_char_eq[of "n mod 10" "m mod 10", simplified])
  also have "\<dots> = (n = m)" by (rule divmod_eq[symmetric])
  finally show ?case .
qed

lemma zpad_less: "n < 10 ^ k \<Longrightarrow> m < 10 ^ k \<Longrightarrow> (zpad k n < zpad k m) = (n < m)"
proof (induction k arbitrary: n m)
  case 0 then show ?case by simp
next
  case (Suc k)
  have a: "n div 10 < 10 ^ k" "m div 10 < 10 ^ k" using Suc.prems by (simp_all only: div10_bound)
  have "(zpad (Suc k) n < zpad (Suc k) m)
      = (zpad k (n div 10) < zpad k (m div 10)
         \<or> (zpad k (n div 10) = zpad k (m div 10) \<and> digit_char (n mod 10) < digit_char (m mod 10)))"
    by (simp add: append_less_same_length)
  also have "\<dots> = (n div 10 < m div 10 \<or> (n div 10 = m div 10 \<and> n mod 10 < m mod 10))"
    by (simp only: Suc.IH[OF a] zpad_eq[OF a] digit_char_less[of "n mod 10" "m mod 10", simplified])
  also have "\<dots> = (n < m)" by (rule divmod_less[symmetric])
  finally show ?case .
qed

lemma parse_digits_append:
  "parse_digits acc (xs @ ys) = (case parse_digits acc xs of None \<Rightarrow> None | Some v \<Rightarrow> parse_digits v ys)"
  by (induction xs arbitrary: acc) (simp_all split: option.splits)

lemma parse_digits_zpad: "n < 10 ^ k \<Longrightarrow> parse_digits acc (zpad k n) = Some (acc * 10 ^ k + n)"
proof (induction k arbitrary: n acc)
  case 0 then show ?case by simp
next
  case (Suc k)
  have a: "n div 10 < 10 ^ k" using Suc.prems by (simp only: div10_bound)
  have "parse_digits acc (zpad (Suc k) n) = Some (10 * (acc * 10 ^ k + n div 10) + n mod 10)"
    by (simp add: parse_digits_append Suc.IH[OF a] digit_val_digit_char)
  also have "10 * (acc * 10 ^ k + n div 10) + n mod 10 = acc * 10 ^ Suc k + n"
    by (simp add: algebra_simps)
  finally show ?case .
qed

lemma frac_less:
  assumes "u < 1000000" "v < 1000000"
  shows "((if u = 0 then [] else ''.'' @ zpad 6 u) < (if v = 0 then [] else ''.'' @ zpad 6 v)) = (u < v)"
proof -
  have p: "u < 10 ^ 6" "v < 10 ^ 6" using assms by simp_all
  show ?thesis
  proof (cases "u = 0")
    case True then show ?thesis by (cases "v = 0") simp_all
  next
    case False
    show ?thesis
    proof (cases "v = 0")
      case True then show ?thesis using False by simp
    next
      case v: False
      have "(''.'' @ zpad 6 u < ''.'' @ zpad 6 v) = (zpad 6 u < zpad 6 v)" by simp
      also have "\<dots> = (u < v)" by (rule zpad_less[OF p])
      finally show ?thesis using False v by simp
    qed
  qed
qed

lemma frac_eq:
  assumes "u < 1000000" "v < 1000000"
  shows "((if u = 0 then [] else ''.'' @ zpad 6 u) = (if v = 0 then [] else ''.'' @ zpad 6 v)) = (u = v)"
proof -
  have p: "u < 10 ^ 6" "v < 10 ^ 6" using assms by simp_all
  show ?thesis
  proof (cases "u = 0")
    case True then show ?thesis by (cases "v = 0") auto
  next
    case False
    show ?thesis
    proof (cases "v = 0")
      case True then show ?thesis using False by auto
    next
      case v: False
      have "(''.'' @ zpad 6 u = ''.'' @ zpad 6 v) = (zpad 6 u = zpad 6 v)" by simp
      also have "\<dots> = (u = v)" by (rule zpad_eq[OF p])
      finally show ?thesis using False v by simp
    qed
  qed
qed

text \<open>One fixed-width field followed by a separator and the rest.\<close>

lemma field_less:
  assumes "n < 10 ^ k" "m < 10 ^ k"
  shows "(zpad k n @ c # r < zpad k m @ c # r') = (n < m \<or> (n = m \<and> r < r'))"
proof -
  have "(zpad k n @ c # r < zpad k m @ c # r')
      = (zpad k n < zpad k m \<or> (zpad k n = zpad k m \<and> c # r < c # r'))"
    by (rule append_less_same_length) simp
  also have "\<dots> = (n < m \<or> (n = m \<and> r < r'))"
    by (simp only: zpad_less[OF assms] zpad_eq[OF assms] Cons_less_Cons) simp
  finally show ?thesis .
qed

lemma last_field_less:
  assumes "n < 10 ^ k" "m < 10 ^ k"
  shows "(zpad k n @ r < zpad k m @ r') = (n < m \<or> (n = m \<and> r < r'))"
proof -
  have "(zpad k n @ r < zpad k m @ r')
      = (zpad k n < zpad k m \<or> (zpad k n = zpad k m \<and> r < r'))"
    by (rule append_less_same_length) simp
  also have "\<dots> = (n < m \<or> (n = m \<and> r < r'))"
    by (simp only: zpad_less[OF assms] zpad_eq[OF assms])
  finally show ?thesis .
qed

lemma valid_bounds:
  assumes "valid_datetime d"
  shows "year d < 10 ^ 4" "month d < 10 ^ 2" "day d < 10 ^ 2" "hour d < 10 ^ 2"
    "minute d < 10 ^ 2" "second d < 10 ^ 2" "microsecond d < 1000000"
proof -
  have "day d \<le> 31" using assms by (simp add: valid_datetime_def days_in_month_def split: if_splits)
  then show "day d < 10 ^ 2" by simp
qed (use assms in \<open>simp_all add: valid_datetime_def\<close>)

lemma isoformat_less:
  assumes a: "valid_datetime a" and b: "valid_datetime b"
  shows "(isoformat a < isoformat b) = dt_less a b"
proof -
  note A = valid_bounds[OF a] and B = valid_bounds[OF b]
  show ?thesis
    unfolding isoformat_def dt_less_def dt_tuple_def
    apply (simp only: append_Cons append_Nil append_assoc)
    apply (simp only: field_less[OF A(1) B(1)] field_less[OF A(2) B(2)] field_less[OF A(3) B(3)]
        field_less[OF A(4) B(4)] field_less[OF A(5) B(5)] last_field_less[OF A(6) B(6)]
        frac_less[OF A(7) B(7), simplified append_Cons append_Nil] less_prod_simp)
    apply (simp only: less_prod_simp le_less)
    apply blast
    done
qed

lemma parse_zpad0: "n < 10 ^ k \<Longrightarrow> parse_digits 0 (zpad k n) = Some n"
  by (simp add: parse_digits_zpad)

lemma len2: "length (xs::'a list) = 2 \<Longrightarrow> \<exists>a b. xs = [a, b]"
  by (auto simp: eval_nat_numeral length_Suc_conv)

lemma len4: "length (xs::'a list) = 4 \<Longrightarrow> \<exists>a b c d. xs = [a, b, c, d]"
  by (auto simp: eval_nat_numeral length_Suc_conv)

lemma iso_shape:
  fixes y mo dd h mi sec fr :: string
  assumes "length y = 4" "length mo = 2" "length dd = 2" "length h = 2" "length mi = 2" "length sec = 2"
  defines "s \<equiv> y @ CHR ''-'' # mo @ CHR ''-'' # dd @ CHR ''T'' # h @ CHR '':'' # mi @ CHR '':'' # sec @ fr"
  shows "take 4 s = y" "take 2 (drop 5 s) = mo" "take 2 (drop 8 s) = dd"
    "take 2 (drop 11 s) = h" "take 2 (drop 14 s) = mi" "take 2 (drop 17 s) = sec"
    "drop 19 s = fr" "s ! 4 = CHR ''-''" "s ! 7 = CHR ''-''" "s ! 13 = CHR '':''" "s ! 16 = CHR '':''"
    "length s = 19 + length fr"
proof -
  obtain y1 y2 y3 y4 where y: "y = [y1, y2, y3, y4]" using len4[OF assms(1)] by blast
  obtain m1 m2 where mo: "mo = [m1, m2]" using len2[OF assms(2)] by blast
  obtain d1 d2 where dd: "dd = [d1, d2]" using len2[OF assms(3)] by blast
  obtain h1 h2 where h: "h = [h1, h2]" using len2[OF assms(4)] by blast
  obtain i1 i2 where mi: "mi = [i1, i2]" using len2[OF assms(5)] by blast
  obtain s1 s2 where sec: "sec = [s1, s2]" using len2[OF assms(6)] by blast
  show "take 4 s = y" "take 2 (drop 5 s) = mo" "take 2 (drop 8 s) = dd"
    "take 2 (drop 11 s) = h" "take 2 (drop 14 s) = mi" "take 2 (drop 17 s) = sec"
    "drop 19 s = fr" "s ! 4 = CHR ''-''" "s ! 7 = CHR ''-''" "s ! 13 = CHR '':''" "s ! 16 = CHR '':''"
    "length s = 19 + length fr"
    unfolding s_def y mo dd h mi sec by simp_all
qed

lemma fromisoformat_isoformat:
  assumes v: "valid_datetime d"
  shows "fromisoformat (isoformat d) = Inr d"
proof -
  note B = valid_bounds[OF v]
  let ?fr = "if microsecond d = 0 then [] else CHR ''.'' # zpad 6 (microsecond d)"
  let ?s = "zpad 4 (year d) @ CHR ''-'' # zpad 2 (month d) @ CHR ''-'' # zpad 2 (day d) @
     CHR ''T'' # zpad 2 (hour d) @ CHR '':'' # zpad 2 (minute d) @ CHR '':'' # zpad 2 (second d) @ ?fr"
  have iso: "isoformat d = ?s" by (simp add: isoformat_def)
  note S = iso_shape[where y = "zpad 4 (year d)" and mo = "zpad 2 (month d)"
      and dd = "zpad 2 (day d)" and h = "zpad 2 (hour d)" and mi = "zpad 2 (minute d)"
      and sec = "zpad 2 (second d)" and fr = ?fr,
      OF length_zpad length_zpad length_zpad length_zpad length_zpad length_zpad]
  have us: "microsecond d < 10 ^ 6" using B(7) by simp
  have len: "length ?s = 19 \<or> (length ?s = 26 \<and> ?s ! 19 = CHR ''.'')"
  proof (cases "microsecond d = 0")
    case True then show ?thesis using S(12) by simp
  next
    case False
    have "?s ! 19 = hd (drop 19 ?s)" by (rule hd_drop_conv_nth[symmetric]) (simp add: S(12) False)
    then show ?thesis using False S(12) S(7) by simp
  qed
  have fr: "parse_digits 0 (drop 20 ?s) = Some (microsecond d)"
  proof -
    have "drop 20 ?s = drop 1 (drop 19 ?s)" by simp
    also have "\<dots> = drop 1 ?fr" by (simp only: S(7))
    also have "\<dots> = (if microsecond d = 0 then [] else zpad 6 (microsecond d))" by simp
    finally show ?thesis by (simp add: parse_zpad0[OF us])
  qed
  have rec: "\<lparr>year = year d, month = month d, day = day d, hour = hour d, minute = minute d,
      second = second d, microsecond = microsecond d\<rparr> = d" by simp
  show ?thesis
    unfolding iso fromisoformat_def
    apply (simp only: len S(1-6) S(8-11) fr parse_zpad0[OF B(1)] parse_zpad0[OF B(2)]
        parse_zpad0[OF B(3)] parse_zpad0[OF B(4)] parse_zpad0[OF B(5)] parse_zpad0[OF B(6)])
    apply (simp add: v rec)
    done
qed

subsection \<open>Compliance-framework derivation\<close>

lemma set_update_set: "set (set_update xs s) = set s \<union> set xs"
  unfolding set_update_def by (induction xs arbitrary: s) (auto simp: set_add_def)

lemma set_update_absorb: "set xs \<subseteq> set s \<Longrightarrow> set_update xs s = s"
  unfolding set_update_def by (induction xs arbitrary: s) (auto simp: set_add_def)

lemma assign_eq:
  "assign_compliance_frameworks e =
     e\<lparr>compliance_frameworks :=
         derive_frameworks (category e) (target e) (compliance_frameworks e)\<rparr>"
  apply (cases "category e = AUTHENTICATION"; cases "category e = SECURITY_EVENT";
      cases "str_contains ''financial'' (str_lower (target e)) \<or> category e = SYSTEM_CONFIGURATION";
      cases "category e = DATA_ACCESS \<or> category e = DATA_MODIFICATION")
  apply (simp_all add: assign_compliance_frameworks_def derive_frameworks_def Let_def
      set_update_def)
  done

lemma derive_set:
  "set (derive_frameworks c t fs) = set fs \<union> set (derive_frameworks c t [])"
  by (simp add: derive_frameworks_def set_update_set) blast

lemma derive_idem:
  "derive_frameworks c t (derive_frameworks c t fs) = derive_frameworks c t fs"
proof -
  let ?g = "derive_frameworks c t fs"
  have a: "set (if c = DATA_ACCESS \<or> c = DATA_MODIFICATION then [GDPR] else []) \<subseteq> set ?g"
    and b: "set (if str_contains ''financial'' (str_lower t) \<or> c = SYSTEM_CONFIGURATION
                 then [SOX] else []) \<subseteq> set ?g"
    and c: "set (if c = SECURITY_EVENT then [ISO27001, SOC2, NIST] else []) \<subseteq> set ?g"
    and d: "set (if c = AUTHENTICATION then [SOC2, ISO27001, PCI_DSS] else []) \<subseteq> set ?g"
    by (auto simp: derive_frameworks_def set_update_set)
  show ?thesis
    apply (subst (1) derive_frameworks_def)
    apply (simp only: set_update_absorb[OF a] set_update_absorb[OF b]
        set_update_absorb[OF c] set_update_absorb[OF d])
    done
qed

lemma derive_gdpr:
  "c = DATA_ACCESS \<or> c = DATA_MODIFICATION \<Longrightarrow> GDPR \<in> set (derive_frameworks c t fs)"
  by (auto simp: derive_frameworks_def set_update_set)

lemma post_init_frameworks:
  "compliance_frameworks (post_init u e) =
     derive_frameworks (category e) (target e) (compliance_frameworks e)"
  by (simp add: post_init_def assign_eq)

text \<open>
  C2. The derivation run by the constructor reads only the category, the target and the
  frameworks already present: two constructions that agree on these yield the same
  framework set, whatever their other fields and generated identifiers. Running the
  derivation on an already derived event changes nothing, the derivation never removes
  a framework, and a \<^verbatim>\<open>data_access\<close> or \<^verbatim>\<open>data_modification\<close> event carries GDPR after
  construction.
\<close>

theorem compliance_derivation_deterministic_idempotent_monotone:
  "(category a = category b \<and> target a = target b
      \<and> set (compliance_frameworks a) = set (compliance_frameworks b)
      \<longrightarrow> set (compliance_frameworks (post_init u a))
          = set (compliance_frameworks (post_init v b)))
   \<and> assign_compliance_frameworks (assign_compliance_frameworks e)
       = assign_compliance_frameworks e
   \<and> set (compliance_frameworks e)
       \<subseteq> set (compliance_frameworks (assign_compliance_frameworks e))
   \<and> set (compliance_frameworks e) \<subseteq> set (compliance_frameworks (post_init u e))
   \<and> (category e = DATA_ACCESS \<or> category e = DATA_MODIFICATION
      \<longrightarrow> GDPR \<in> set (compliance_frameworks (post_init u e)))"
proof (intro conjI impI)
  assume "category a = category b \<and> target a = target b
      \<and> set (compliance_frameworks a) = set (compliance_frameworks b)"
  then show "set (compliance_frameworks (post_init u a))
      = set (compliance_frameworks (post_init v b))"
    by (simp add: post_init_frameworks derive_set [of _ _ "compliance_frameworks a"]
        derive_set [of _ _ "compliance_frameworks b"])
next
  show "assign_compliance_frameworks (assign_compliance_frameworks e)
      = assign_compliance_frameworks e"
    by (simp add: assign_eq derive_idem)
next
  show "set (compliance_frameworks e)
      \<subseteq> set (compliance_frameworks (assign_compliance_frameworks e))"
    by (simp add: assign_eq derive_set [of _ _ "compliance_frameworks e"])
next
  show "set (compliance_frameworks e) \<subseteq> set (compliance_frameworks (post_init u e))"
    by (simp add: post_init_frameworks derive_set [of _ _ "compliance_frameworks e"])
next
  assume "category e = DATA_ACCESS \<or> category e = DATA_MODIFICATION"
  then show "GDPR \<in> set (compliance_frameworks (post_init u e))"
    by (simp add: post_init_frameworks derive_gdpr)
qed

theorem compliance_derivation_witness:
  "set (compliance_frameworks
          (post_init ''u'' (example_event\<lparr>category := DATA_ACCESS, event_id := []\<rparr>)))
     = set (compliance_frameworks
          (post_init ''v'' (example_event\<lparr>category := DATA_ACCESS, actor := ''bob''\<rparr>)))
   \<and> GDPR \<in> set (compliance_frameworks
          (post_init ''u'' (example_event\<lparr>category := DATA_ACCESS, event_id := []\<rparr>)))"
proof -
  let ?a = "example_event\<lparr>category := DATA_ACCESS, event_id := []\<rparr>"
  let ?b = "example_event\<lparr>category := DATA_ACCESS, actor := ''bob''\<rparr>"
  have same: "category ?a = category ?b \<and> target ?a = target ?b
      \<and> set (compliance_frameworks ?a) = set (compliance_frameworks ?b)"
    by simp
  have data: "category ?a = DATA_ACCESS \<or> category ?a = DATA_MODIFICATION"
    by simp
  from compliance_derivation_deterministic_idempotent_monotone
    [where a = ?a and b = ?b and u = "''u''" and v = "''v''" and e = ?a] same data
  show ?thesis by blast
qed

subsection \<open>The filter\<close>

text \<open>
  C5, as the code has it. \<open>should_log\<close> is a function of the filter and the event alone.
  A filter built with no argument takes the signature's default \<^verbatim>\<open>min_level=INFO\<close>: it
  accepts exactly the events whose level is not \<^verbatim>\<open>debug\<close>. A filter whose minimum
  level is \<^verbatim>\<open>DEBUG\<close> (or \<^verbatim>\<open>None\<close>) and whose other criteria are unset accepts every
  event.
\<close>

theorem default_filter_accepts_info_and_above:
  "should_log (AuditFilter_init None None None None None None) ev = (level ev \<noteq> DEBUG)
   \<and> should_log (AuditFilter_init (Some (Some DEBUG)) None None None None None) ev
   \<and> should_log (AuditFilter_init (Some None) None None None None None) ev"
  by (cases "level ev")
    (simp_all add: should_log_def AuditFilter_init_def level_priority_get_def)

text \<open>
  C5 as stated fails: the filter with every criterion unset rejects a \<^verbatim>\<open>debug\<close> event.
\<close>

theorem all_unset_filter_rejects_debug_event:
  "level example_event = DEBUG
   \<and> \<not> should_log (AuditFilter_init None None None None None None) example_event"
  by (simp add: should_log_def AuditFilter_init_def level_priority_get_def example_event_def)

text \<open>
  C8. The ranks are debug 0, info 1, warning 2, error 3, critical 4, security 5 and
  compliance 5. The severity check is the only place where \<open>min_level\<close> is read: a filter
  with minimum level \<open>m\<close> accepts an event exactly when the event's rank is not below the
  rank of \<open>m\<close> and the remaining criteria (the same filter with the lowest minimum level)
  accept it. Security and compliance tie: a minimum level of either admits events of the
  other as the lowest minimum level would.
\<close>

theorem should_log_severity_check:
  "level_priority DEBUG = 0 \<and> level_priority INFO = 1 \<and> level_priority WARNING = 2
   \<and> level_priority ERROR = 3 \<and> level_priority CRITICAL = 4
   \<and> level_priority SECURITY = 5 \<and> level_priority COMPLIANCE = 5
   \<and> should_log (flt\<lparr>min_level := Some m\<rparr>) ev
       = (\<not> level_priority (level ev) < level_priority m
          \<and> should_log (flt\<lparr>min_level := Some DEBUG\<rparr>) ev)
   \<and> should_log (flt\<lparr>min_level := Some SECURITY\<rparr>) (ev\<lparr>level := COMPLIANCE\<rparr>)
       = should_log (flt\<lparr>min_level := Some DEBUG\<rparr>) (ev\<lparr>level := COMPLIANCE\<rparr>)
   \<and> should_log (flt\<lparr>min_level := Some COMPLIANCE\<rparr>) (ev\<lparr>level := SECURITY\<rparr>)
       = should_log (flt\<lparr>min_level := Some DEBUG\<rparr>) (ev\<lparr>level := SECURITY\<rparr>)"
  by (simp add: should_log_def level_priority_get_def)

theorem should_log_severity_check_witness:
  "should_log ((AuditFilter_init None None None None None None)\<lparr>min_level := Some SECURITY\<rparr>)
     (example_event\<lparr>level := COMPLIANCE\<rparr>)
   \<and> \<not> should_log ((AuditFilter_init None None None None None None)\<lparr>min_level := Some SECURITY\<rparr>)
     (example_event\<lparr>level := CRITICAL\<rparr>)"
  using should_log_severity_check
    [where flt = "AuditFilter_init None None None None None None" and m = SECURITY
       and ev = "example_event\<lparr>level := COMPLIANCE\<rparr>"]
    should_log_severity_check
    [where flt = "AuditFilter_init None None None None None None" and m = SECURITY
       and ev = "example_event\<lparr>level := CRITICAL\<rparr>"]
  by (simp add: should_log_def AuditFilter_init_def level_priority_get_def example_event_def)

subsection \<open>Storage and logger: auxiliary facts\<close>

lemma File_store_event_outcome:
  "fst (File_store_event e fs event) = Inr (fst (File_store_event_body e fs event) = None)"
  by (cases "File_store_event_body e fs event") (simp add: File_store_event_def split: option.splits)


lemma Db_store_event_outcome:
  "fst (Db_store_event e db event)
     = Inr (db_available db \<and> sqlite_integer (risk_score event)
            \<and> event_id event \<notin> set (map r_event_id (audit_events db)))"
  by (simp add: Db_store_event_def Db_store_event_body_def)



lemma store_event_returns: "fst (store_event e st event) = Inr True \<or> fst (store_event e st event) = Inr False"
proof (cases st)
  case (FileStorage fs)
  have "fst (store_event e st event) = fst (File_store_event e fs event)"
    by (simp add: store_event_def FileStorage split: prod.splits)
  then show ?thesis
    by (cases "fst (File_store_event_body e fs event) = None")
      (simp_all add: File_store_event_outcome)
next
  case (DbStorage db)
  have "fst (store_event e st event) = fst (Db_store_event e db event)"
    by (simp add: store_event_def DbStorage split: prod.splits)
  then show ?thesis
    by (cases "db_available db \<and> sqlite_integer (risk_score event)
               \<and> event_id event \<notin> set (map r_event_id (audit_events db))")
      (simp_all only: Db_store_event_outcome simp_thms)
qed

lemma call_handlers_frame:
  "storage (call_handlers ev i hs s) = storage s
   \<and> filters (call_handlers ev i hs s) = filters s
   \<and> async_logging (call_handlers ev i hs s) = async_logging s
   \<and> event_queue (call_handlers ev i hs s) = event_queue s
   \<and> queue_maxsize (call_handlers ev i hs s) = queue_maxsize s
   \<and> event_handlers (call_handlers ev i hs s) = event_handlers s"
  by (induction hs arbitrary: i s) simp_all

lemma call_handlers_calls:
  "handler_calls (call_handlers ev i hs s)
     = handler_calls s @ map (\<lambda>j. (j, ev)) [i ..< i + length hs]"
proof (induction hs arbitrary: i s)
  case Nil then show ?case by simp
next
  case (Cons h hs)
  have "[i ..< i + length (h # hs)] = i # [Suc i ..< Suc i + length hs]"
    by (simp add: upt_rec)
  then show ?case by (simp add: Cons.IH)
qed

lemma call_handlers_errors:
  "error_log (call_handlers ev i hs s) = error_log s @ handler_failures ev hs"
  by (induction hs arbitrary: i s) (auto simp: handler_failures_def)

lemma queue_full_call_handlers: "queue_full (call_handlers ev i hs s) = queue_full s"
  by (simp add: queue_full_def call_handlers_frame)


lemma store_event_cases:
  obtains b st' logged where "store_event e st event = (Inr b, st', logged)"
proof -
  obtain r st' logged where eq: "store_event e st event = (r, st', logged)"
    by (cases "store_event e st event") auto
  from store_event_returns[of e st event] eq have "r = Inr True \<or> r = Inr False" by simp
  with eq that show thesis by blast
qed

lemma dispatch_rejected:
  "list_ex (\<lambda>f. \<not> should_log f ev) (filters s) \<Longrightarrow> dispatch_event e s ev = (Inr (event_id ev), s)"
  by (simp add: dispatch_event_def)

lemma dispatch_returns: "fst (dispatch_event e s ev) = Inr (event_id ev)"
proof -
  obtain b st' logged where
    "store_event e (storage (call_handlers ev 0 (event_handlers s) s)) ev = (Inr b, st', logged)"
    by (rule store_event_cases)
  then show ?thesis by (simp add: dispatch_event_def Let_def)
qed

lemma dispatch_calls:
  "\<not> list_ex (\<lambda>f. \<not> should_log f ev) (filters s) \<Longrightarrow>
   handler_calls (snd (dispatch_event e s ev))
     = handler_calls s @ map (\<lambda>j. (j, ev)) [0 ..< length (event_handlers s)]"
proof -
  assume a: "\<not> list_ex (\<lambda>f. \<not> should_log f ev) (filters s)"
  obtain b st' logged where
    "store_event e (storage (call_handlers ev 0 (event_handlers s) s)) ev = (Inr b, st', logged)"
    by (rule store_event_cases)
  then show ?thesis using a
    by (simp add: dispatch_event_def Let_def call_handlers_calls)
qed

lemma dispatch_sync:
  "\<not> list_ex (\<lambda>f. \<not> should_log f ev) (filters s) \<Longrightarrow> \<not> async_logging s \<Longrightarrow>
   storage (snd (dispatch_event e s ev)) = fst (snd (store_event e (storage s) ev))
   \<and> event_queue (snd (dispatch_event e s ev)) = event_queue s
   \<and> error_log (snd (dispatch_event e s ev))
       = error_log s @ handler_failures ev (event_handlers s)
         @ snd (snd (store_event e (storage s) ev))"
proof -
  assume a: "\<not> list_ex (\<lambda>f. \<not> should_log f ev) (filters s)" "\<not> async_logging s"
  obtain b st' logged where
    "store_event e (storage s) ev = (Inr b, st', logged)"
    by (rule store_event_cases)
  then show ?thesis using a
    by (simp add: dispatch_event_def Let_def call_handlers_frame call_handlers_errors)
qed

lemma dispatch_async:
  "\<not> list_ex (\<lambda>f. \<not> should_log f ev) (filters s) \<Longrightarrow> async_logging s \<Longrightarrow>
   storage (snd (dispatch_event e s ev)) = storage s
   \<and> event_queue (snd (dispatch_event e s ev))
       = (if queue_full s then event_queue s else event_queue s @ [ev])
   \<and> error_log (snd (dispatch_event e s ev))
       = error_log s @ handler_failures ev (event_handlers s)
         @ (if queue_full s then [''Audit event queue is full, dropping event''] else [])"
  by (simp add: dispatch_event_def Let_def call_handlers_frame queue_full_call_handlers
      call_handlers_errors)

lemma post_init_fields:
  "level (post_init u x) = level x" "category (post_init u x) = category x"
  "action (post_init u x) = action x" "actor (post_init u x) = actor x"
  "target (post_init u x) = target x" "result (post_init u x) = result x"
  "message (post_init u x) = message x" "timestamp (post_init u x) = timestamp x"
  "details (post_init u x) = details x" "risk_score (post_init u x) = risk_score x"
  "event_id (post_init u x) = (if event_id x = [] then u else event_id x)"
  by (simp_all add: post_init_def assign_eq)

subsection \<open>Storing an event\<close>



subsection \<open>The logger\<close>

text \<open>
  C1, as the code has it. \<open>log_event\<close> always returns the id of the event it constructed.
  When a filter rejects the event the logger is left as it was: no handler is called,
  nothing is queued, nothing is stored, nothing is logged. When every filter accepts,
  every registered handler is called once, in registration order, with the event, and
  each handler that raises adds one message to the error log; then, with synchronous
  logging, the event is passed to the storage's \<open>store_event\<close>, whose messages follow in
  the error log; with asynchronous logging it is appended to the queue unless the
  bounded queue is full, in which case it is dropped, the storage is left untouched and
  the message \<^verbatim>\<open>Audit event queue is full, dropping event\<close> is logged.
\<close>

theorem log_event_returns_id_and_dispatches:
  fixes e self lv cat act ac tg res msg kw
  defines "ev \<equiv> new_event e lv cat act ac tg res msg kw"
    and "r \<equiv> log_event e self lv cat act ac tg res msg kw"
  shows
  "fst r = Inr (event_id ev)
   \<and> (list_ex (\<lambda>f. \<not> should_log f ev) (filters self) \<longrightarrow> snd r = self)
   \<and> (\<not> list_ex (\<lambda>f. \<not> should_log f ev) (filters self) \<longrightarrow>
        handler_calls (snd r)
          = handler_calls self @ map (\<lambda>j. (j, ev)) [0 ..< length (event_handlers self)]
        \<and> (\<not> async_logging self \<longrightarrow>
             storage (snd r) = fst (snd (store_event e (storage self) ev))
             \<and> event_queue (snd r) = event_queue self
             \<and> error_log (snd r)
                 = error_log self @ handler_failures ev (event_handlers self)
                   @ snd (snd (store_event e (storage self) ev)))
        \<and> (async_logging self \<longrightarrow>
             storage (snd r) = storage self
             \<and> event_queue (snd r)
                 = (if queue_full self then event_queue self else event_queue self @ [ev])
             \<and> error_log (snd r)
                 = error_log self @ handler_failures ev (event_handlers self)
                   @ (if queue_full self then [''Audit event queue is full, dropping event'']
                      else [])))"
  unfolding r_def ev_def log_event_def
  apply (intro conjI impI)
  subgoal by (rule dispatch_returns)
  subgoal by (simp add: dispatch_rejected)
  subgoal by (rule dispatch_calls)
  subgoal by (simp add: dispatch_sync)
  subgoal by (simp add: dispatch_sync)
  subgoal by (simp add: dispatch_sync)
  subgoal by (simp add: dispatch_async)
  subgoal by (simp add: dispatch_async)
  subgoal by (simp add: dispatch_async)
  done

theorem log_event_witness:
  "fst (log_event example_env sync_logger INFO DATA_ACCESS READ ''alice'' ''reports''
          ''success'' ''read'' no_kwargs) = Inr ''uuid-1''
   \<and> handler_calls (snd (log_event example_env sync_logger INFO DATA_ACCESS READ ''alice''
          ''reports'' ''success'' ''read'' no_kwargs))
       = [(0, new_event example_env INFO DATA_ACCESS READ ''alice'' ''reports'' ''success''
                ''read'' no_kwargs)]
   \<and> storage (snd (log_event example_env sync_logger INFO DATA_ACCESS READ ''alice''
          ''reports'' ''success'' ''read'' no_kwargs))
       = DbStorage \<lparr>audit_events =
            [row_of_event example_hash_order
               (new_event example_env INFO DATA_ACCESS READ ''alice'' ''reports''
                  ''success'' ''read'' no_kwargs)], db_available = True\<rparr>
   \<and> error_log (snd (log_event example_env sync_logger INFO DATA_ACCESS READ ''alice''
          ''reports'' ''success'' ''read'' no_kwargs)) = []"
proof -
  let ?ev = "new_event example_env INFO DATA_ACCESS READ ''alice'' ''reports'' ''success''
     ''read'' no_kwargs"
  have id: "event_id ?ev = ''uuid-1''"
    by (simp add: new_event_def post_init_fields example_env_def)
  have acc: "\<not> list_ex (\<lambda>f. \<not> should_log f ?ev) (filters sync_logger)"
    by (simp add: sync_logger_def should_log_def AuditFilter_init_def level_priority_get_def
        new_event_def post_init_fields)
  have sync: "\<not> async_logging sync_logger" by (simp add: sync_logger_def)
  have rs: "sqlite_integer (risk_score ?ev)"
    by (simp add: new_event_def post_init_fields no_kwargs_def sqlite_integer_def)
  have ho: "env_hash_order example_env = example_hash_order"
    by (simp add: example_env_def)
  have st: "fst (snd (store_event example_env (storage sync_logger) ?ev))
      = DbStorage \<lparr>audit_events = [row_of_event example_hash_order ?ev], db_available = True\<rparr>
    \<and> snd (snd (store_event example_env (storage sync_logger) ?ev)) = []"
    by (simp add: sync_logger_def store_event_def Db_store_event_def Db_store_event_body_def
        empty_db_def rs ho)
  have hs: "handler_calls sync_logger = [] \<and> length (event_handlers sync_logger) = 1
      \<and> error_log sync_logger = [] \<and> handler_failures ?ev (event_handlers sync_logger) = []"
    by (simp add: sync_logger_def handler_failures_def)
  from log_event_returns_id_and_dispatches
    [where e = example_env and self = sync_logger and lv = INFO and cat = DATA_ACCESS
       and act = READ and ac = "''alice''" and tg = "''reports''" and res = "''success''"
       and msg = "''read''" and kw = no_kwargs]
    acc sync
  show ?thesis by (simp add: id st hs)
qed

text \<open>
  C1 as stated fails: with asynchronous logging and a full queue, an event that every
  filter accepts is neither queued nor stored; only the error message is logged.
\<close>

theorem full_queue_drops_accepted_event:
  "\<not> list_ex (\<lambda>f. \<not> should_log f
          (new_event example_env INFO DATA_ACCESS READ ''alice'' ''reports'' ''success''
             ''read'' no_kwargs)) (filters full_logger)
   \<and> fst (log_event example_env full_logger INFO DATA_ACCESS READ ''alice'' ''reports''
          ''success'' ''read'' no_kwargs) = Inr ''uuid-1''
   \<and> map event_id (event_queue (snd (log_event example_env full_logger INFO DATA_ACCESS READ
          ''alice'' ''reports'' ''success'' ''read'' no_kwargs))) = [''e1'']
   \<and> storage (snd (log_event example_env full_logger INFO DATA_ACCESS READ ''alice''
          ''reports'' ''success'' ''read'' no_kwargs)) = DbStorage empty_db
   \<and> error_log (snd (log_event example_env full_logger INFO DATA_ACCESS READ ''alice''
          ''reports'' ''success'' ''read'' no_kwargs))
       = [''Audit event queue is full, dropping event'']"
  by (simp add: log_event_def dispatch_event_def full_logger_def queue_full_def
      new_event_def post_init_fields example_env_def example_event_def)

text \<open>
  C10. \<open>log_authentication\<close> passes to the filters, handlers and storage an event of
  level \<^verbatim>\<open>SECURITY\<close>, category \<^verbatim>\<open>AUTHENTICATION\<close> and target
  \<^verbatim>\<open>authentication_system\<close>; its action is \<^verbatim>\<open>LOGIN\<close> exactly when the result is the
  string \<^verbatim>\<open>success\<close> and \<^verbatim>\<open>ACCESS_DENIED\<close> otherwise, so the failed-login count of
  \<^verbatim>\<open>generate_audit_report\<close> counts it exactly when the result is not \<^verbatim>\<open>success\<close>.
\<close>

theorem log_authentication_event_shape:
  fixes e self ac res kw
  defines "ev \<equiv> new_event e SECURITY AUTHENTICATION
                   (if res = ''success'' then LOGIN else ACCESS_DENIED)
                   ac ''authentication_system'' res
                   (''Authentication '' @ res @ '' for '' @ ac) kw"
  shows
  "log_authentication e self ac res kw = dispatch_event e self ev
   \<and> level ev = SECURITY \<and> category ev = AUTHENTICATION
   \<and> target ev = ''authentication_system'' \<and> actor ev = ac \<and> result ev = res
   \<and> (action ev = LOGIN) = (res = ''success'')
   \<and> (action ev = ACCESS_DENIED) = (res \<noteq> ''success'')
   \<and> failed_logins [ev] = (if res = ''success'' then [] else [ev])"
  unfolding ev_def
  by (simp add: log_authentication_def log_event_def new_event_def post_init_fields
      failed_logins_def)

theorem log_authentication_witness:
  "handler_calls (snd (log_authentication example_env
       (sync_logger\<lparr>filters := []\<rparr>) ''mallory'' ''failed'' no_kwargs))
     = [(0, new_event example_env SECURITY AUTHENTICATION ACCESS_DENIED ''mallory''
              ''authentication_system'' ''failed'' ''Authentication failed for mallory''
              no_kwargs)]"
  using log_authentication_event_shape
    [where e = example_env and self = "sync_logger\<lparr>filters := []\<rparr>" and ac = "''mallory''"
       and res = "''failed''" and kw = no_kwargs]
    dispatch_calls [where e = example_env and s = "sync_logger\<lparr>filters := []\<rparr>"
       and ev = "new_event example_env SECURITY AUTHENTICATION ACCESS_DENIED ''mallory''
              ''authentication_system'' ''failed'' ''Authentication failed for mallory''
              no_kwargs"]
  by (simp add: sync_logger_def)

subsection \<open>Serialisation: auxiliary facts\<close>

lemma AuditLevel_of_value: "AuditLevel_of (AuditLevel_value l) = Inr l"
  by (cases l) (simp_all add: AuditLevel_of_def enum_of_value_def AuditLevel_members_def)

lemma AuditCategory_of_value: "AuditCategory_of (AuditCategory_value c) = Inr c"
  by (cases c) (simp_all add: AuditCategory_of_def enum_of_value_def AuditCategory_members_def)

lemma AuditAction_of_value: "AuditAction_of (AuditAction_value a) = Inr a"
  by (cases a) (simp_all add: AuditAction_of_def enum_of_value_def AuditAction_members_def)

lemma ComplianceFramework_of_value: "ComplianceFramework_of (ComplianceFramework_value f) = Inr f"
  by (cases f)
    (simp_all add: ComplianceFramework_of_def enum_of_value_def ComplianceFramework_members_def)

lemma exn_map_frameworks:
  "exn_map (enum_of_jv ComplianceFramework_of) (map (\<lambda>f. JStr (ComplianceFramework_value f)) fs)
     = Inr fs"
  by (induction fs) (simp_all add: enum_of_jv_def ComplianceFramework_of_value exn_bind_def)

lemma set_update_Nil_distinct: "distinct fs \<Longrightarrow> set_update fs [] = fs"
proof -
  have "distinct (acc @ fs) \<Longrightarrow> foldl (\<lambda>acc x. set_add x acc) acc fs = acc @ fs" for acc
    by (induction fs arbitrary: acc) (simp_all add: set_add_def)
  from this[of "[]"] show "distinct fs \<Longrightarrow> set_update fs [] = fs"
    by (simp add: set_update_def)
qed

lemma frameworks_of_jv_list:
  "distinct fs \<Longrightarrow>
   frameworks_of_jv (JList (map (\<lambda>f. JStr (ComplianceFramework_value f)) fs)) = Inr fs"
  by (simp add: frameworks_of_jv_def iter_jv_def exn_bind_def exn_map_frameworks
      set_update_Nil_distinct)

lemma opt_str_field_to_dict:
  "map_of d k = Some (opt_str v) \<Longrightarrow> opt_str_field d k = Inr v"
  by (cases v) (simp_all add: opt_str_field_def opt_str_def)

lemma to_dict_lookup:
  "map_of (to_dict h e) ''event_id'' = Some (JStr (event_id e))"
  "map_of (to_dict h e) ''timestamp'' = Some (JStr (isoformat (timestamp e)))"
  "map_of (to_dict h e) ''level'' = Some (JStr (AuditLevel_value (level e)))"
  "map_of (to_dict h e) ''category'' = Some (JStr (AuditCategory_value (category e)))"
  "map_of (to_dict h e) ''action'' = Some (JStr (AuditAction_value (action e)))"
  "map_of (to_dict h e) ''actor'' = Some (JStr (actor e))"
  "map_of (to_dict h e) ''target'' = Some (JStr (target e))"
  "map_of (to_dict h e) ''result'' = Some (JStr (result e))"
  "map_of (to_dict h e) ''message'' = Some (JStr (message e))"
  "map_of (to_dict h e) ''details'' = Some (JDict (details e))"
  "map_of (to_dict h e) ''source_ip'' = Some (opt_str (source_ip e))"
  "map_of (to_dict h e) ''user_agent'' = Some (opt_str (user_agent e))"
  "map_of (to_dict h e) ''session_id'' = Some (opt_str (session_id e))"
  "map_of (to_dict h e) ''correlation_id'' = Some (opt_str (correlation_id e))"
  "map_of (to_dict h e) ''compliance_frameworks''
     = Some (JList (map (\<lambda>f. JStr (ComplianceFramework_value f))
                     (set_iter h (compliance_frameworks e))))"
  "map_of (to_dict h e) ''risk_score'' = Some (JInt (risk_score e))"
  "map_of (to_dict h e) ''sensitive_data'' = Some (JBool (sensitive_data e))"
  by (simp_all add: to_dict_def)

lemma to_dict_keys: "list_all (\<lambda>kv. fst kv \<in> set AuditEvent_fields) (to_dict h e)"
  by (simp add: to_dict_def AuditEvent_fields_def)

lemma post_init_well_formed:
  "well_formed_event e \<Longrightarrow> post_init u e = e"
  by (simp add: well_formed_event_def post_init_def assign_eq)

lemma derive_fixed_same_set:
  assumes fixed: "derive_frameworks c t fs = fs" and same: "set fs' = set fs"
  shows "derive_frameworks c t fs' = fs'"
proof -
  have "set (derive_frameworks c t fs) = set fs" using fixed by simp
  then have a: "set (if c = DATA_ACCESS \<or> c = DATA_MODIFICATION then [GDPR] else []) \<subseteq> set fs'"
    and b: "set (if str_contains ''financial'' (str_lower t) \<or> c = SYSTEM_CONFIGURATION
                 then [SOX] else []) \<subseteq> set fs'"
    and c: "set (if c = SECURITY_EVENT then [ISO27001, SOC2, NIST] else []) \<subseteq> set fs'"
    and d: "set (if c = AUTHENTICATION then [SOC2, ISO27001, PCI_DSS] else []) \<subseteq> set fs'"
    unfolding same by (auto simp: derive_frameworks_def set_update_set)
  show ?thesis
    apply (subst (1) derive_frameworks_def)
    apply (simp only: set_update_absorb[OF a] set_update_absorb[OF b]
        set_update_absorb[OF c] set_update_absorb[OF d])
    done
qed

text \<open>
  The event \<open>dict_to_event\<close> rebuilds from the dictionary of a well-formed event: every
  field is the one written, and the framework set holds the same elements, inserted in
  the order of the array written.
\<close>

lemma dict_to_event_to_dict:
  assumes wf: "well_formed_event e"
    and it: "iterates_each_once h (compliance_frameworks e)"
  shows "dict_to_event u (JDict (to_dict h e))
    = Inr (e\<lparr>compliance_frameworks := set_iter h (compliance_frameworks e)\<rparr>)"
proof -
  let ?e' = "e\<lparr>compliance_frameworks := set_iter h (compliance_frameworks e)\<rparr>"
  have ts: "fromisoformat (isoformat (timestamp e)) = Inr (timestamp e)"
    using wf by (simp add: well_formed_event_def fromisoformat_isoformat)
  have fw: "frameworks_of_jv
      (JList (map (\<lambda>f. JStr (ComplianceFramework_value f))
                (set_iter h (compliance_frameworks e))))
      = Inr (set_iter h (compliance_frameworks e))"
    using it by (simp add: iterates_each_once_def frameworks_of_jv_list)
  have rec: "\<lparr>event_id = event_id e, timestamp = timestamp e, level = level e,
      category = category e, action = action e, actor = actor e, target = target e,
      result = result e, message = message e, details = details e,
      source_ip = source_ip e, user_agent = user_agent e, session_id = session_id e,
      correlation_id = correlation_id e,
      compliance_frameworks = set_iter h (compliance_frameworks e),
      risk_score = risk_score e, sensitive_data = sensitive_data e\<rparr> = ?e'"
    by simp
  have "derive_frameworks (category e) (target e) (set_iter h (compliance_frameworks e))
      = set_iter h (compliance_frameworks e)"
  proof (rule derive_fixed_same_set [where fs = "compliance_frameworks e"])
    show "derive_frameworks (category e) (target e) (compliance_frameworks e)
        = compliance_frameworks e"
      using wf by (simp add: well_formed_event_def)
    show "set (set_iter h (compliance_frameworks e)) = set (compliance_frameworks e)"
      using it by (simp add: iterates_each_once_def)
  qed
  then have wf': "well_formed_event ?e'"
    using wf it by (simp add: well_formed_event_def iterates_each_once_def)
  show ?thesis
    unfolding dict_to_event_def
    by (simp add: get_item_def to_dict_lookup enum_of_jv_def datetime_of_jv_def exn_bind_def
        AuditLevel_of_value AuditCategory_of_value AuditAction_of_value ts fw to_dict_keys
        str_field_def details_field_def int_field_def bool_field_def
        opt_str_field_to_dict [OF to_dict_lookup(11)] opt_str_field_to_dict [OF to_dict_lookup(12)]
        opt_str_field_to_dict [OF to_dict_lookup(13)] opt_str_field_to_dict [OF to_dict_lookup(14)]
        rec post_init_well_formed [OF wf'])
qed

text \<open>
  When the set is iterated in the order of its insertions (as a set of at most one
  element always is), the event rebuilt is the event written.
\<close>

lemma dict_to_event_to_dict_same:
  assumes wf: "well_formed_event e"
    and same: "set_iter h (compliance_frameworks e) = compliance_frameworks e"
  shows "dict_to_event u (JDict (to_dict h e)) = Inr e"
proof -
  have "iterates_each_once h (compliance_frameworks e)"
    using wf by (simp add: iterates_each_once_def same well_formed_event_def)
  from dict_to_event_to_dict [OF wf this] show ?thesis by (simp add: same)
qed

lemma set_update_distinct: "distinct s \<Longrightarrow> distinct (set_update xs s)"
  unfolding set_update_def by (induction xs arbitrary: s) (simp_all add: set_add_def)

lemma derive_distinct: "distinct fs \<Longrightarrow> distinct (derive_frameworks c t fs)"
  by (simp add: derive_frameworks_def set_update_distinct)

lemma well_formed_post_init:
  "u \<noteq> [] \<Longrightarrow> valid_datetime (timestamp x) \<Longrightarrow> distinct (compliance_frameworks x) \<Longrightarrow>
   well_formed_event (post_init u x)"
  by (simp add: well_formed_event_def post_init_def assign_eq derive_idem derive_distinct)

subsection \<open>Serialisation and checksum\<close>

lemma reports_not_financial: "\<not> str_contains ''financial'' (str_lower ''reports'')"
  by (simp add: str_lower_def lower_char_def)

lemma valid_example_time: "valid_datetime example_time"
  by (simp add: valid_datetime_def example_time_def days_in_month_def)

lemma well_formed_login_event: "well_formed_event login_event"
  unfolding login_event_def
  by (rule well_formed_post_init) (simp_all add: example_event_def valid_example_time)

lemma frameworks_login_event: "compliance_frameworks login_event = [SOC2, ISO27001, PCI_DSS]"
  by (simp add: login_event_def post_init_frameworks derive_frameworks_def set_update_def
      set_add_def example_event_def reports_not_financial)

lemma login_event_round_trip:
  "exn_bind (json_loads (to_json example_hash_order login_event)) (dict_to_event u)
     = Inr login_event_rebuilt"
proof -
  have it: "iterates_each_once example_hash_order (compliance_frameworks login_event)"
    unfolding frameworks_login_event
    by (auto simp: iterates_each_once_def set_iter_def example_hash_order_def)
  have "dict_to_event u (JDict (to_dict example_hash_order login_event))
      = Inr (login_event\<lparr>compliance_frameworks :=
               set_iter example_hash_order (compliance_frameworks login_event)\<rparr>)"
    by (rule dict_to_event_to_dict [OF well_formed_login_event it])
  then show ?thesis
    by (simp add: to_json_def json_loads_def exn_bind_def login_event_rebuilt_def
        frameworks_login_event set_iter_def example_hash_order_def)
qed

text \<open>
  C9 at failing inputs. Two events equal in every field, whose \<open>details\<close> were filled in
  a different key order, serialise to different texts and so have different checksums,
  whatever the order in which sets are iterated. Under the hash layout
  \<open>example_hash_order\<close> the authentication event \<open>login_event\<close> writes its frameworks as
  \<^verbatim>\<open>pci_dss, iso27001, soc2\<close>, which is not sorted; the event rebuilt from the text by
  \<^verbatim>\<open>json.loads\<close> and \<open>dict_to_event\<close> is equal to the original in every field, writes its
  frameworks as \<^verbatim>\<open>iso27001, pci_dss, soc2\<close>, and so has another checksum than the
  original.
\<close>

theorem checksum_differs_between_equal_events:
  "py_eq (example_event\<lparr>details := details_ab\<rparr>) (example_event\<lparr>details := details_ba\<rparr>)
   \<and> (\<forall>h. calculate_checksum h (example_event\<lparr>details := details_ab\<rparr>)
            \<noteq> calculate_checksum h (example_event\<lparr>details := details_ba\<rparr>))
   \<and> map_of (to_dict example_hash_order login_event) ''compliance_frameworks''
       = Some (JList [JStr ''pci_dss'', JStr ''iso27001'', JStr ''soc2''])
   \<and> \<not> sorted [''pci_dss'', ''iso27001'', ''soc2'']
   \<and> exn_bind (json_loads (to_json example_hash_order login_event)) (dict_to_event ''uuid-9'')
       = Inr login_event_rebuilt
   \<and> py_eq login_event login_event_rebuilt
   \<and> map_of (to_dict example_hash_order login_event_rebuilt) ''compliance_frameworks''
       = Some (JList [JStr ''iso27001'', JStr ''pci_dss'', JStr ''soc2''])
   \<and> calculate_checksum example_hash_order login_event_rebuilt
       \<noteq> calculate_checksum example_hash_order login_event"
proof -
  have a: "py_eq (example_event\<lparr>details := details_ab\<rparr>) (example_event\<lparr>details := details_ba\<rparr>)"
    by (simp add: py_eq_def dict_eq_def details_ab_def details_ba_def insert_commute)
  have b: "calculate_checksum h (example_event\<lparr>details := details_ab\<rparr>)
      \<noteq> calculate_checksum h (example_event\<lparr>details := details_ba\<rparr>)" for h
    by (simp add: calculate_checksum_def to_json_def to_dict_def details_ab_def details_ba_def)
  have c: "map_of (to_dict example_hash_order login_event) ''compliance_frameworks''
      = Some (JList [JStr ''pci_dss'', JStr ''iso27001'', JStr ''soc2''])"
    by (simp add: to_dict_lookup frameworks_login_event set_iter_def example_hash_order_def)
  have d: "\<not> sorted [''pci_dss'', ''iso27001'', ''soc2'']"
    by simp
  have det: "details login_event = []"
    by (simp add: login_event_def post_init_fields example_event_def)
  have "set (compliance_frameworks login_event) = set [PCI_DSS, ISO27001, SOC2]"
    unfolding frameworks_login_event by auto
  then have e: "py_eq login_event login_event_rebuilt"
    by (simp add: py_eq_def dict_eq_def login_event_rebuilt_def det)
  have f: "map_of (to_dict example_hash_order login_event_rebuilt) ''compliance_frameworks''
      = Some (JList [JStr ''iso27001'', JStr ''pci_dss'', JStr ''soc2''])"
    by (simp add: to_dict_lookup login_event_rebuilt_def set_iter_def example_hash_order_def)
  have g: "calculate_checksum example_hash_order login_event_rebuilt
      \<noteq> calculate_checksum example_hash_order login_event"
    by (simp add: calculate_checksum_def to_json_def to_dict_def login_event_rebuilt_def
        frameworks_login_event set_iter_def example_hash_order_def)
  from a b c d e f g login_event_round_trip [where u = "''uuid-9''"] show ?thesis by blast
qed

subsection \<open>Retention cleanup\<close>

lemma valid_old_time: "valid_datetime old_time"
  by (simp add: valid_datetime_def old_time_def days_in_month_def)

lemma valid_cutoff_time: "valid_datetime cutoff_time"
  by (simp add: valid_datetime_def cutoff_time_def days_in_month_def)

lemma well_formed_example_event: "well_formed_event example_event"
  by (simp add: well_formed_event_def example_event_def valid_example_time
      derive_frameworks_def set_update_def reports_not_financial)

lemma well_formed_old_event: "well_formed_event old_event"
  by (simp add: well_formed_event_def old_event_def example_event_def valid_old_time
      derive_frameworks_def set_update_def reports_not_financial)

lemma cleanup_loop_eq:
  "cleanup_loop t n fs
     = (n + length (filter (\<lambda>f. dt_less (f_mtime f) t) fs),
        filter (\<lambda>f. \<not> dt_less (f_mtime f) t) fs)"
  by (induction fs arbitrary: n) simp_all

lemma File_cleanup_eq:
  "File_cleanup_old_events fs t
     = (length (filter (\<lambda>f. dt_less (f_mtime f) t) (log_directory fs)),
        fs\<lparr>log_directory := filter (\<lambda>f. \<not> dt_less (f_mtime f) t) (log_directory fs)\<rparr>)"
  by (simp add: File_cleanup_old_events_def cleanup_loop_eq)

lemma File_cleanup_twice:
  "File_cleanup_old_events (snd (File_cleanup_old_events fs t)) t
     = (0, snd (File_cleanup_old_events fs t))"
  by (simp add: File_cleanup_eq)

lemma Db_cleanup_twice:
  "Db_cleanup_old_events (snd (Db_cleanup_old_events db t)) t
     = (0, snd (Db_cleanup_old_events db t))"
  by (simp add: Db_cleanup_old_events_def)

lemma row_timestamp_less:
  "valid_datetime (timestamp ev) \<Longrightarrow> valid_datetime t \<Longrightarrow>
   (r_timestamp (row_of_event h ev) < isoformat t) = dt_less (timestamp ev) t"
  by (simp add: row_of_event_def isoformat_less)

lemma filter_rows_of_events:
  "list_all (\<lambda>ev. valid_datetime (timestamp ev)) evs \<Longrightarrow> valid_datetime t \<Longrightarrow>
   filter (\<lambda>r. r_timestamp r < isoformat t) (map (row_of_event h) evs)
     = map (row_of_event h) (filter (\<lambda>ev. dt_less (timestamp ev) t) evs)
   \<and> filter (\<lambda>r. \<not> r_timestamp r < isoformat t) (map (row_of_event h) evs)
     = map (row_of_event h) (filter (\<lambda>ev. \<not> dt_less (timestamp ev) t) evs)"
  by (induction evs) (simp_all add: row_timestamp_less)

text \<open>
  C7, as the code has it. The database backend deletes exactly the rows whose timestamp
  is strictly before the instant given (stated for a reachable database whose rows were
  written by \<open>store_event\<close>, under any hash layout \<open>h\<close>), and returns their number. The file backend deletes
  exactly the log files whose modification time is strictly before the instant and
  returns the number of files. For both, an immediately repeated call deletes nothing
  and returns 0.
\<close>

theorem cleanup_old_events_by_backend:
  "(db_available db \<and> audit_events db = map (row_of_event h) evs
      \<and> list_all (\<lambda>ev. valid_datetime (timestamp ev)) evs \<and> valid_datetime t \<longrightarrow>
        audit_events (snd (Db_cleanup_old_events db t))
          = map (row_of_event h) (filter (\<lambda>ev. \<not> dt_less (timestamp ev) t) evs)
        \<and> fst (Db_cleanup_old_events db t)
            = length (filter (\<lambda>ev. dt_less (timestamp ev) t) evs))
   \<and> Db_cleanup_old_events (snd (Db_cleanup_old_events db t)) t
       = (0, snd (Db_cleanup_old_events db t))
   \<and> log_directory (snd (File_cleanup_old_events fs t))
       = filter (\<lambda>f. \<not> dt_less (f_mtime f) t) (log_directory fs)
   \<and> fst (File_cleanup_old_events fs t)
       = length (filter (\<lambda>f. dt_less (f_mtime f) t) (log_directory fs))
   \<and> File_cleanup_old_events (snd (File_cleanup_old_events fs t)) t
       = (0, snd (File_cleanup_old_events fs t))"
proof (intro conjI impI)
  assume a: "db_available db \<and> audit_events db = map (row_of_event h) evs
      \<and> list_all (\<lambda>ev. valid_datetime (timestamp ev)) evs \<and> valid_datetime t"
  then have f: "list_all (\<lambda>ev. valid_datetime (timestamp ev)) evs" "valid_datetime t" by simp_all
  note F = filter_rows_of_events[OF f]
  show "audit_events (snd (Db_cleanup_old_events db t))
          = map (row_of_event h) (filter (\<lambda>ev. \<not> dt_less (timestamp ev) t) evs)"
    using a F by (simp add: Db_cleanup_old_events_def)
  show "fst (Db_cleanup_old_events db t)
            = length (filter (\<lambda>ev. dt_less (timestamp ev) t) evs)"
    using a F by (simp add: Db_cleanup_old_events_def)
qed (simp_all add: Db_cleanup_twice File_cleanup_twice File_cleanup_eq)

theorem cleanup_old_events_witness:
  "Db_cleanup_old_events
     \<lparr>audit_events = [row_of_event example_hash_order old_event,
                       row_of_event example_hash_order example_event],
      db_available = True\<rparr>
     cutoff_time
   = (1, \<lparr>audit_events = [row_of_event example_hash_order example_event],
          db_available = True\<rparr>)"
proof -
  let ?db = "\<lparr>audit_events = [row_of_event example_hash_order old_event,
                              row_of_event example_hash_order example_event],
             db_available = True\<rparr>"
  have pre: "db_available ?db
      \<and> audit_events ?db = map (row_of_event example_hash_order) [old_event, example_event]
      \<and> list_all (\<lambda>ev. valid_datetime (timestamp ev)) [old_event, example_event]
      \<and> valid_datetime cutoff_time"
    by (simp add: old_event_def example_event_def valid_old_time valid_example_time
        valid_cutoff_time)
  have lt: "dt_less (timestamp old_event) cutoff_time"
    "\<not> dt_less (timestamp example_event) cutoff_time"
    by (simp_all add: dt_less_def dt_tuple_def old_event_def example_event_def old_time_def
        example_time_def cutoff_time_def)
  from cleanup_old_events_by_backend
    [where db = ?db and evs = "[old_event, example_event]" and t = cutoff_time
       and h = example_hash_order] pre
  have "audit_events (snd (Db_cleanup_old_events ?db cutoff_time))
        = [row_of_event example_hash_order example_event]
      \<and> fst (Db_cleanup_old_events ?db cutoff_time) = 1"
    by (simp add: lt)
  moreover have "db_available (snd (Db_cleanup_old_events ?db cutoff_time))"
    by (simp add: Db_cleanup_old_events_def)
  ultimately show ?thesis
    by (cases "Db_cleanup_old_events ?db cutoff_time") (auto intro: DatabaseAuditStorage.equality)
qed

lemma parse_line_to_json:
  "well_formed_event ev \<Longrightarrow> \<not> encrypt_files st \<Longrightarrow>
   set_iter h (compliance_frameworks ev) = compliance_frameworks ev \<Longrightarrow>
   parse_line u st (to_json h ev) = Inr ev"
  by (simp add: parse_line_def to_json_def json_loads_def exn_bind_def
      dict_to_event_to_dict_same)

lemma iter_old_event:
  "set_iter example_hash_order (compliance_frameworks old_event) = compliance_frameworks old_event"
  by (simp add: set_iter_def example_hash_order_def old_event_def example_event_def)

text \<open>
  C7 as stated fails for the file backend: an event older than the instant stays
  stored when its file was modified later, and the call returns 0.
\<close>

theorem file_cleanup_keeps_old_event:
  "dt_less (timestamp old_event) cutoff_time
   \<and> File_retrieve_events ''uuid-9'' stale_file_storage None 10 = [old_event]
   \<and> File_cleanup_old_events stale_file_storage cutoff_time = (0, stale_file_storage)"
proof -
  have lt: "dt_less (timestamp old_event) cutoff_time"
    by (simp add: dt_less_def dt_tuple_def old_event_def old_time_def cutoff_time_def)
  have ne: "\<not> dt_less example_time cutoff_time"
    by (simp add: dt_less_def dt_tuple_def example_time_def cutoff_time_def)
  have enc: "\<not> encrypt_files stale_file_storage"
    by (simp add: stale_file_storage_def empty_file_storage_def)
  have r: "File_retrieve_events ''uuid-9'' stale_file_storage None 10 = [old_event]"
    unfolding File_retrieve_events_def
    by (simp add: stale_file_storage_def [THEN arg_cong, of log_directory] sort_desc_def
        parse_line_to_json [OF well_formed_old_event enc iter_old_event] accepts_def)
  have c: "File_cleanup_old_events stale_file_storage cutoff_time = (0, stale_file_storage)"
    by (simp add: File_cleanup_eq stale_file_storage_def ne)
  from lt r c show ?thesis by simp
qed

subsection \<open>Retrieval order of the file backend\<close>

lemma valid_later_time: "valid_datetime later_time"
  by (simp add: valid_datetime_def later_time_def days_in_month_def)

lemma well_formed_new_event:
  "env_uuid e \<noteq> [] \<Longrightarrow> valid_datetime (env_utcnow e) \<Longrightarrow>
   distinct (case kw_compliance_frameworks kw of None \<Rightarrow> [] | Some s \<Rightarrow> s) \<Longrightarrow>
   well_formed_event (new_event e lv cat act ac tg res msg kw)"
  by (simp add: well_formed_event_def new_event_def post_init_def assign_eq derive_idem
      derive_distinct)

lemma well_formed_first_event: "well_formed_event first_event"
  unfolding first_event_def
  by (rule well_formed_new_event) (simp_all add: example_env_def valid_example_time no_kwargs_def)

lemma well_formed_second_event: "well_formed_event second_event"
  unfolding second_event_def
  by (rule well_formed_new_event) (simp_all add: later_env_def valid_later_time no_kwargs_def)

lemma env_fields:
  "env_mtime example_env = example_time" "env_nbytes example_env = 100"
  "env_mtime later_env = later_time" "env_nbytes later_env = 100"
  "env_hash_order example_env = example_hash_order"
  "env_hash_order later_env = example_hash_order"
  by (simp_all add: example_env_def later_env_def)

lemma iter_first_event:
  "set_iter example_hash_order (compliance_frameworks first_event)
     = compliance_frameworks first_event"
  by (simp add: set_iter_def example_hash_order_def first_event_def new_event_def
      post_init_frameworks derive_frameworks_def set_update_def set_add_def no_kwargs_def
      reports_not_financial)

lemma iter_second_event:
  "set_iter example_hash_order (compliance_frameworks second_event)
     = compliance_frameworks second_event"
  by (simp add: set_iter_def example_hash_order_def second_event_def new_event_def
      post_init_frameworks derive_frameworks_def set_update_def set_add_def no_kwargs_def
      reports_not_financial)

lemma storage_after_two_calls:
  "storage after_two_calls =
     FileStorage (empty_file_storage\<lparr>log_directory :=
       [\<lparr>f_name = ''audit_20240102_030405.log'', f_mtime = later_time, f_size = 200,
         f_lines = [to_json example_hash_order first_event,
                    to_json example_hash_order second_event], f_readable = True\<rparr>]\<rparr>)"
  by (simp add: after_two_calls_def log_event_def dispatch_event_def file_logger_def
      store_event_def File_store_event_def File_store_event_body_def rotate_file_if_needed_def
      append_line_def empty_file_storage_def env_fields exn_bind_def
      first_event_def [symmetric] second_event_def [symmetric])

text \<open>
  C3 at a failing input. Two synchronous \<open>log_event\<close> calls on a logger with the file
  backend put two lines into one file; \<open>retrieve_events\<close> reads the lines of a file in
  the order they were appended, so it returns the two events oldest first, and with
  limit 1 it returns the older one.
\<close>

theorem file_retrieve_returns_call_order:
  "dt_less (timestamp first_event) (timestamp second_event)
   \<and> retrieve_events ''uuid-9'' (storage after_two_calls) None 10 = [first_event, second_event]
   \<and> retrieve_events ''uuid-9'' (storage after_two_calls) None 1 = [first_event]"
proof -
  have lt: "dt_less (timestamp first_event) (timestamp second_event)"
    by (simp add: first_event_def second_event_def new_event_def post_init_fields dt_less_def
        dt_tuple_def example_env_def later_env_def example_time_def later_time_def)
  have enc: "\<not> encrypt_files (empty_file_storage\<lparr>log_directory := d\<rparr>)" for d
    by (simp add: empty_file_storage_def)
  have r: "retrieve_events ''uuid-9'' (storage after_two_calls) None 10
      = [first_event, second_event]"
    by (simp add: storage_after_two_calls retrieve_events_def File_retrieve_events_def
        sort_desc_def parse_line_to_json [OF well_formed_first_event enc iter_first_event]
        parse_line_to_json [OF well_formed_second_event enc iter_second_event] accepts_def)
  have r1: "retrieve_events ''uuid-9'' (storage after_two_calls) None 1 = [first_event]"
    by (simp add: storage_after_two_calls retrieve_events_def File_retrieve_events_def
        sort_desc_def parse_line_to_json [OF well_formed_first_event enc iter_first_event]
        parse_line_to_json [OF well_formed_second_event enc iter_second_event] accepts_def)
  from lt r r1 show ?thesis by simp
qed

subsection \<open>Counting and retrieving in the database backend\<close>

lemma isoformat_le:
  "valid_datetime a \<Longrightarrow> valid_datetime b \<Longrightarrow> (isoformat a \<le> isoformat b) = dt_le a b"
proof -
  assume v: "valid_datetime a" "valid_datetime b"
  have "(isoformat a \<le> isoformat b) = (\<not> isoformat b < isoformat a)" by (simp add: not_less)
  also have "\<dots> = (\<not> dt_less b a)" by (simp add: isoformat_less v)
  also have "\<dots> = dt_le a b" by (simp add: dt_less_def dt_le_def not_less)
  finally show ?thesis .
qed

lemma well_formed_info_event: "well_formed_event info_event"
  by (simp add: well_formed_event_def info_event_def example_event_def valid_example_time
      derive_frameworks_def set_update_def reports_not_financial)

lemma row_to_event_row_of_event:
  assumes wf: "well_formed_event e"
    and same: "set_iter h (compliance_frameworks e) = compliance_frameworks e"
  shows "row_to_event u (row_of_event h e) = Inr e"
proof -
  have ts: "fromisoformat (isoformat (timestamp e)) = Inr (timestamp e)"
    using wf by (simp add: well_formed_event_def fromisoformat_isoformat)
  have fw: "frameworks_of_jv
      (JList (map (\<lambda>f. JStr (ComplianceFramework_value f))
                (set_iter h (compliance_frameworks e))))
      = Inr (compliance_frameworks e)"
    using wf by (simp add: same well_formed_event_def frameworks_of_jv_list)
  have rec: "\<lparr>event_id = event_id e, timestamp = timestamp e, level = level e,
      category = category e, action = action e, actor = actor e, target = target e,
      result = result e, message = message e, details = details e,
      source_ip = source_ip e, user_agent = user_agent e, session_id = session_id e,
      correlation_id = correlation_id e, compliance_frameworks = compliance_frameworks e,
      risk_score = risk_score e, sensitive_data = sensitive_data e\<rparr> = e"
    by simp
  have sd: "((if b then (1::int) else 0) = 0) = (\<not> b)" for b by simp
  show ?thesis
    by (simp add: row_to_event_def row_of_event_def exn_bind_def json_loads_def
        AuditLevel_of_value AuditCategory_of_value AuditAction_of_value ts fw sd rec
        post_init_well_formed [OF wf] split del: if_split)
qed

lemma iter_info_event:
  "set_iter example_hash_order (compliance_frameworks info_event) = compliance_frameworks info_event"
  by (simp add: set_iter_def example_hash_order_def info_event_def example_event_def)

text \<open>
  C4 at a failing input. One \<^verbatim>\<open>info\<close> event is stored in the database. With the
  default filter, which accepts the event, \<open>get_event_count\<close> returns 1 while
  \<open>retrieve_events\<close> returns nothing: its level condition compares the stored value
  \<^verbatim>\<open>info\<close> with upper-case names. With a filter whose time range excludes the event,
  \<open>retrieve_events\<close> returns nothing and \<open>get_event_count\<close> still returns 1: the count
  translates neither \<open>min_level\<close> nor \<open>time_range\<close>.
\<close>

theorem database_count_differs_from_retrieve:
  "should_log default_filter info_event
   \<and> Db_get_event_count one_row_db (Some default_filter) = 1
   \<and> Db_retrieve_events ''uuid-9'' one_row_db (Some default_filter) 10 = []
   \<and> Db_retrieve_events ''uuid-9'' one_row_db None 10 = [info_event]
   \<and> \<not> should_log past_range_filter info_event
   \<and> Db_get_event_count one_row_db (Some past_range_filter) = 1
   \<and> Db_retrieve_events ''uuid-9'' one_row_db (Some past_range_filter) 10 = []"
proof -
  have a: "should_log default_filter info_event"
    by (simp add: default_filter_def should_log_def AuditFilter_init_def level_priority_get_def
        info_event_def example_event_def)
  have b: "Db_get_event_count one_row_db (Some default_filter) = 1"
    by (simp add: Db_get_event_count_def execute_select_def count_conditions_def
        default_filter_def AuditFilter_init_def one_row_db_def)
  have lv: "r_level (row_of_event example_hash_order info_event) = ''info''"
    by (simp add: row_of_event_def info_event_def example_event_def)
  have c: "Db_retrieve_events ''uuid-9'' one_row_db (Some default_filter) 10 = []"
    by (simp add: Db_retrieve_events_def Db_retrieve_events_body_def execute_select_def
        retrieve_conditions_def default_filter_def AuditFilter_init_def one_row_db_def
        level_condition_def level_hierarchy_def lv exn_bind_def sort_desc_def sql_limit_def)
  have d: "Db_retrieve_events ''uuid-9'' one_row_db None 10 = [info_event]"
    by (simp add: Db_retrieve_events_def Db_retrieve_events_body_def execute_select_def
        retrieve_conditions_def one_row_db_def exn_bind_def sort_desc_def sql_limit_def
        row_to_event_row_of_event [OF well_formed_info_event iter_info_event])
  have le: "\<not> dt_le (timestamp info_event) cutoff_time"
    by (simp add: dt_le_def dt_tuple_def info_event_def example_event_def example_time_def
        cutoff_time_def)
  have e: "\<not> should_log past_range_filter info_event"
    using le
    by (simp add: past_range_filter_def should_log_def AuditFilter_init_def
        level_priority_get_def)
  have f: "Db_get_event_count one_row_db (Some past_range_filter) = 1"
    by (simp add: Db_get_event_count_def execute_select_def count_conditions_def
        past_range_filter_def AuditFilter_init_def one_row_db_def)
  have ts: "r_timestamp (row_of_event example_hash_order info_event) = isoformat example_time"
    by (simp add: row_of_event_def info_event_def example_event_def)
  have out: "\<not> isoformat example_time \<le> isoformat cutoff_time"
    using le
    by (simp add: isoformat_le valid_example_time valid_cutoff_time info_event_def
        example_event_def)
  have g: "Db_retrieve_events ''uuid-9'' one_row_db (Some past_range_filter) 10 = []"
    by (simp add: Db_retrieve_events_def Db_retrieve_events_body_def execute_select_def
        retrieve_conditions_def past_range_filter_def AuditFilter_init_def one_row_db_def
        time_range_condition_def ts out exn_bind_def sort_desc_def sql_limit_def)
  from a b c d e f g show ?thesis by simp
qed

end
